theory Spec2Isabelle
  imports Main
begin

section \<open>Data model\<close>

text \<open>
  The entities of \<^verbatim>\<open>App.tsx\<close>. A JavaScript \<^verbatim>\<open>number\<close> holding a count or a
  time stamp (milliseconds since the epoch, the value of \<^verbatim>\<open>Date.getTime()\<close>) is an
  \<^typ>\<open>int\<close>; an optional field is an \<^typ>\<open>'a option\<close>, \<^term>\<open>None\<close> standing for both
  \<^verbatim>\<open>undefined\<close> and \<^verbatim>\<open>null\<close>; the vote ledger \<^verbatim>\<open>Record<string, string>\<close> is a map
  from user ids to option ids.
\<close>

datatype UserRole = ADMIN | RESPONSABLE | ELEVE

datatype ViewState = DASHBOARD | INFOS | DS | POLLS | RESOURCES | USERS | SETTINGS

record User =
  user_id :: string
  user_name :: string
  email :: string
  password :: string
  role :: UserRole
  classGroup :: "string option"

record ClassGroup =
  class_id :: string
  class_name :: string

record SchoolSettings =
  schoolName :: string
  themeColor :: string
  logoUrl :: "string option"

text \<open>
  Every content entity has an \<^verbatim>\<open>id\<close> and an optional \<^verbatim>\<open>targetClass\<close>; the four
  entity records extend this common part, so that the code written four times over in the
  source (the visibility filter, the removal by id) is one polymorphic definition here.
\<close>

record Item =
  item_id :: string
  targetClass :: "string option"

record Announcement = Item +
  ann_title :: string
  ann_subject :: string
  meetLink :: "string option"
  ann_date :: int
  isUrgent :: bool
  authorId :: string
  authorName :: string

record Exam = Item +
  exam_subject :: string
  exam_date :: int
  startTime :: string
  durationMinutes :: int
  room :: string
  exam_notes :: "string option"
  exam_createdById :: string

record PollOption =
  opt_id :: string
  opt_text :: string
  votes :: int

record Poll = Item +
  poll_title :: string
  options :: "PollOption list"
  isAnonymous :: bool
  createdAt :: int
  expiresAt :: int
  poll_createdById :: string
  userVotes :: "string \<rightharpoonup> string"

record Resource = Item +
  res_title :: string
  res_type :: string
  res_content :: string
  res_subject :: string
  res_description :: "string option"
  res_createdAt :: int
  res_createdById :: string

datatype NotificationType = alert | info | success

record AppNotification =
  notif_id :: string
  notif_type :: NotificationType
  notif_title :: string
  message :: string
  linkTo :: ViewState
  timestamp :: int

text \<open>
  The content of the key \<^verbatim>\<open>classpoll_session\<close> of the browser's local storage: absent,
  a string that \<^verbatim>\<open>JSON.parse\<close> rejects (or that has no \<^verbatim>\<open>id\<close> to read), or a
  serialised user.
\<close>

datatype StoredSession = Unparsable | SessionOf User

record AppState =
  currentUser :: "User option"
  currentView :: ViewState
  viewHistory :: "ViewState list"
  storedSession :: "StoredSession option"
  users :: "User list"
  announcements :: "Announcement list"
  exams :: "Exam list"
  polls :: "Poll list"
  resources :: "Resource list"
  schoolSettings :: SchoolSettings
  classGroups :: "ClassGroup list"
  isLoading :: bool
  dbError :: "string option"

text \<open>The state on mount: the initial values of the \<^verbatim>\<open>useState\<close> hooks.\<close>

definition initialState :: "StoredSession option \<Rightarrow> AppState" where
  "initialState stored =
     \<lparr>currentUser = None, currentView = DASHBOARD, viewHistory = [],
      storedSession = stored, users = [], announcements = [], exams = [], polls = [],
      resources = [],
      schoolSettings = \<lparr>schoolName = ''ClassPoll+'', themeColor = ''indigo'', logoUrl = None\<rparr>,
      classGroups = [], isLoading = True, dbError = None\<rparr>"

definition DEFAULT_ADMIN :: User where
  "DEFAULT_ADMIN =
     \<lparr>user_id = ''admin-init'', user_name = ''Administrateur Principal'',
      email = ''faye@eco.com'', password = ''passer25'', role = ADMIN, classGroup = None\<rparr>"

section \<open>The remote store\<close>

text \<open>
  The remote store is outside the program. A call to it is recorded (table, kind, row id),
  and what it answers is an argument of the operation that calls it: for a mutation,
  whether the call succeeded; for the bulk load, the rows of every table.
\<close>

datatype RemoteCall =
  Select string
  | Insert string string
  | Update string string

text \<open>
  The column \<^verbatim>\<open>voted_user_ids\<close> of a stored poll: missing, an array (the old format), or
  an object (the ledger).
\<close>

datatype VotedUserIds = VotedNull | VotedArray "string list" | VotedObject "string \<rightharpoonup> string"

record PollRow = Item +
  row_title :: string
  row_options :: "PollOption list option"
  is_anonymous :: bool
  created_at :: int
  expires_at :: int
  created_by_id :: string
  voted_user_ids :: VotedUserIds

record SettingsRow =
  school_name :: "string option"
  theme_color :: "string option"
  logo_url :: "string option"

text \<open>An answer is the error (its code) or the rows.\<close>

record RemoteDb =
  settingsData :: "SettingsRow option"
  classesData :: "ClassGroup list option"
  userData :: "string + User list"
  initAdminOk :: bool
  annData :: "string + Announcement list"
  examData :: "string + Exam list"
  pollData :: "string + PollRow list"
  resData :: "string + Resource list"

section \<open>JavaScript helpers\<close>

text \<open>\<^verbatim>\<open>!v\<close> for an optional string: \<^verbatim>\<open>undefined\<close>, \<^verbatim>\<open>null\<close> and the empty string are falsy.\<close>

definition falsy :: "string option \<Rightarrow> bool" where
  "falsy v = (case v of None \<Rightarrow> True | Some str \<Rightarrow> str = [])"

text \<open>\<^verbatim>\<open>a || d\<close> for an optional string and a default.\<close>

definition orDefault :: "string option \<Rightarrow> string \<Rightarrow> string" where
  "orDefault v d = (case v of None \<Rightarrow> d | Some str \<Rightarrow> if str = [] then d else str)"

text \<open>
  \<^verbatim>\<open>String.prototype.toLowerCase\<close> belongs to the JavaScript runtime, not to the
  program: it lowers the letters of every script by the tables of the Unicode standard.
  It is an argument, \<open>toLowerCase\<close>, of the login. What is known of it here is its effect
  on a string of ASCII characters: the letters A to Z are mapped to a to z, every other
  character is kept.
\<close>

definition isUpperAscii :: "char \<Rightarrow> bool" where
  "isUpperAscii c = (65 \<le> (of_char c :: nat) \<and> (of_char c :: nat) \<le> 90)"

definition lowerAscii :: "char \<Rightarrow> char" where
  "lowerAscii c = (if isUpperAscii c then char_of ((of_char c :: nat) + 32) else c)"

definition isAscii :: "string \<Rightarrow> bool" where
  "isAscii str = (\<forall>c \<in> set str. (of_char c :: nat) < 128)"

definition lowersAscii :: "(string \<Rightarrow> string) \<Rightarrow> bool" where
  "lowersAscii toLowerCase = (\<forall>str. isAscii str \<longrightarrow> toLowerCase str = map lowerAscii str)"

text \<open>
  Matching without regard to case, in the words of the specification and with no
  reference to a lowering function: two strings have the same length and, position by
  position, the same character or the capital and the small form of the same letter.
\<close>

definition sameLetter :: "char \<Rightarrow> char \<Rightarrow> bool" where
  "sameLetter a b =
     (a = b \<or>
      (isUpperAscii a \<and> (of_char b :: nat) = of_char a + 32) \<or>
      (isUpperAscii b \<and> (of_char a :: nat) = of_char b + 32))"

definition equalIgnoringCase :: "string \<Rightarrow> string \<Rightarrow> bool" where
  "equalIgnoringCase a b = list_all2 sameLetter a b"

text \<open>
  \<^verbatim>\<open>differenceInHours\<close> and \<^verbatim>\<open>differenceInDays\<close> of the library date-fns, on time
  stamps: the number of full hours (days) from the right date to the left one, truncated
  towards zero. A day is 24 hours (a time zone with no daylight-saving shift).
\<close>

definition truncDiv :: "int \<Rightarrow> int \<Rightarrow> int" where
  "truncDiv a b = (if a < 0 then - ((- a) div b) else a div b)"

definition MS_PER_HOUR :: int where
  "MS_PER_HOUR = 3600000"

definition MS_PER_DAY :: int where
  "MS_PER_DAY = 86400000"

definition differenceInHours :: "int \<Rightarrow> int \<Rightarrow> int" where
  "differenceInHours dateLeft dateRight = truncDiv (dateLeft - dateRight) MS_PER_HOUR"

definition differenceInDays :: "int \<Rightarrow> int \<Rightarrow> int" where
  "differenceInDays dateLeft dateRight = truncDiv (dateLeft - dateRight) MS_PER_DAY"

section \<open>Bulk load\<close>

text \<open>
  The mapping of a stored poll (step 4 of \<^verbatim>\<open>fetchData\<close>): a ledger in the old array
  format is replaced by the empty ledger, the options are kept as stored.
\<close>

definition mapPoll :: "PollRow \<Rightarrow> Poll" where
  "mapPoll p =
     (let votesMap = (case voted_user_ids p of
                        VotedObject m \<Rightarrow> m
                      | VotedArray ids \<Rightarrow> Map.empty
                      | VotedNull \<Rightarrow> Map.empty)
      in \<lparr>item_id = item_id p, targetClass = targetClass p,
          poll_title = row_title p,
          options = (case row_options p of None \<Rightarrow> [] | Some os \<Rightarrow> os),
          isAnonymous = is_anonymous p,
          createdAt = created_at p,
          expiresAt = expires_at p,
          poll_createdById = created_by_id p,
          userVotes = votesMap\<rparr>)"

text \<open>
  \<^verbatim>\<open>fetchData\<close>, one function per numbered step of the source. A step that throws leaves
  the collections loaded before it in place, sets \<^verbatim>\<open>dbError\<close> and skips the steps after
  it; \<^verbatim>\<open>isLoading\<close> is cleared in every case. The result is the new state and the calls
  made.
\<close>

text \<open>The message of \<^verbatim>\<open>setDbError\<close>, its accents and its apostrophe dropped.\<close>

definition DB_ERROR_MESSAGE :: string where
  "DB_ERROR_MESSAGE = ''Erreur de connexion a la base de donnees. Assurez-vous d avoir execute le script SQL.''"

definition fetchSettings :: "RemoteDb \<Rightarrow> AppState \<Rightarrow> AppState" where
  "fetchSettings db s =
     (let s1 = (case settingsData db of
                  None \<Rightarrow> s
                | Some r \<Rightarrow> s\<lparr>schoolSettings :=
                      \<lparr>schoolName = orDefault (school_name r) ''ClassPoll+'',
                       themeColor = orDefault (theme_color r) ''indigo'',
                       logoUrl = logo_url r\<rparr>\<rparr>)
      in (case classesData db of
            None \<Rightarrow> s1
          | Some cs \<Rightarrow> s1\<lparr>classGroups := cs\<rparr>))"

definition restoreSession :: "User list \<Rightarrow> AppState \<Rightarrow> AppState" where
  "restoreSession mappedUsers s =
     (case storedSession s of
        None \<Rightarrow> s
      | Some Unparsable \<Rightarrow> s\<lparr>storedSession := None\<rparr>
      | Some (SessionOf sessionUser) \<Rightarrow>
          (case find (\<lambda>u. user_id u = user_id sessionUser) mappedUsers of
             Some validUser \<Rightarrow> s\<lparr>currentUser := Some validUser\<rparr>
           | None \<Rightarrow> s\<lparr>storedSession := None\<rparr>))"

definition fetchResources :: "RemoteDb \<Rightarrow> AppState \<Rightarrow> AppState" where
  "fetchResources db s =
     (case resData db of
        Inl code \<Rightarrow> s
      | Inr rows \<Rightarrow> s\<lparr>resources := rows\<rparr>)"

definition fetchPolls :: "RemoteDb \<Rightarrow> AppState \<Rightarrow> AppState \<times> RemoteCall list" where
  "fetchPolls db s =
     (case pollData db of
        Inl e \<Rightarrow> (s\<lparr>dbError := Some DB_ERROR_MESSAGE\<rparr>, [Select ''polls''])
      | Inr rows \<Rightarrow>
          (fetchResources db (s\<lparr>polls := map mapPoll rows\<rparr>),
           [Select ''polls'', Select ''resources'']))"

definition fetchExams :: "RemoteDb \<Rightarrow> AppState \<Rightarrow> AppState \<times> RemoteCall list" where
  "fetchExams db s =
     (case examData db of
        Inl e \<Rightarrow> (s\<lparr>dbError := Some DB_ERROR_MESSAGE\<rparr>, [Select ''exams''])
      | Inr rows \<Rightarrow>
          (let (s', calls) = fetchPolls db (s\<lparr>exams := rows\<rparr>)
           in (s', Select ''exams'' # calls)))"

definition fetchAnnouncements :: "RemoteDb \<Rightarrow> AppState \<Rightarrow> AppState \<times> RemoteCall list" where
  "fetchAnnouncements db s =
     (case annData db of
        Inl e \<Rightarrow> (s\<lparr>dbError := Some DB_ERROR_MESSAGE\<rparr>, [Select ''announcements''])
      | Inr rows \<Rightarrow>
          (let (s', calls) = fetchExams db (s\<lparr>announcements := rows\<rparr>)
           in (s', Select ''announcements'' # calls)))"

definition fetchUsers :: "RemoteDb \<Rightarrow> AppState \<Rightarrow> AppState \<times> RemoteCall list" where
  "fetchUsers db s =
     (case userData db of
        Inl e \<Rightarrow> (s\<lparr>dbError := Some DB_ERROR_MESSAGE\<rparr>, [Select ''users''])
      | Inr rows \<Rightarrow>
          (let mappedUsers =
                 (if rows = [] \<and> initAdminOk db then [DEFAULT_ADMIN] else rows);
               initCalls = (if rows = [] then [Insert ''users'' (user_id DEFAULT_ADMIN)] else []);
               (s', calls) =
                 fetchAnnouncements db (restoreSession mappedUsers (s\<lparr>users := mappedUsers\<rparr>))
           in (s', Select ''users'' # initCalls @ calls)))"

definition fetchData :: "RemoteDb \<Rightarrow> AppState \<Rightarrow> AppState \<times> RemoteCall list" where
  "fetchData db s =
     (let (s', calls) = fetchUsers db (fetchSettings db (s\<lparr>dbError := None\<rparr>))
      in (s'\<lparr>isLoading := False\<rparr>,
          Select ''school_settings'' # Select ''class_groups'' # calls))"

section \<open>Access filter\<close>

text \<open>
  \<^verbatim>\<open>filteredAnnouncements\<close>, \<^verbatim>\<open>filteredExams\<close>, \<^verbatim>\<open>filteredPolls\<close> and
  \<^verbatim>\<open>filteredResources\<close> are the same code on four collections: no filtering when nobody
  is logged in or for the roles ADMIN and RESPONSABLE, and otherwise
  \<^verbatim>\<open>!a.targetClass || a.targetClass === currentUser.classGroup\<close>.
\<close>

definition visibleTo :: "User \<Rightarrow> 'a Item_scheme \<Rightarrow> bool" where
  "visibleTo u a = (falsy (targetClass a) \<or> targetClass a = classGroup u)"

definition accessFilter :: "User option \<Rightarrow> 'a Item_scheme list \<Rightarrow> 'a Item_scheme list" where
  "accessFilter cu xs =
     (case cu of
        None \<Rightarrow> xs
      | Some u \<Rightarrow>
          if role u = ADMIN \<or> role u = RESPONSABLE then xs else filter (visibleTo u) xs)"

definition filteredAnnouncements :: "AppState \<Rightarrow> Announcement list" where
  "filteredAnnouncements s = accessFilter (currentUser s) (announcements s)"

definition filteredExams :: "AppState \<Rightarrow> Exam list" where
  "filteredExams s = accessFilter (currentUser s) (exams s)"

definition filteredPolls :: "AppState \<Rightarrow> Poll list" where
  "filteredPolls s = accessFilter (currentUser s) (polls s)"

definition filteredResources :: "AppState \<Rightarrow> Resource list" where
  "filteredResources s = accessFilter (currentUser s) (resources s)"

section \<open>Login\<close>

definition credentialsMatch ::
  "(string \<Rightarrow> string) \<Rightarrow> string \<Rightarrow> string \<Rightarrow> User \<Rightarrow> bool" where
  "credentialsMatch toLowerCase em pw u =
     (toLowerCase (email u) = toLowerCase em \<and> password u = pw)"

definition handleLogin ::
  "(string \<Rightarrow> string) \<Rightarrow> AppState \<Rightarrow> string \<Rightarrow> string \<Rightarrow> bool \<times> AppState" where
  "handleLogin toLowerCase s em pw =
     (case find (credentialsMatch toLowerCase em pw) (users s) of
        Some u \<Rightarrow>
          (True, s\<lparr>storedSession := Some (SessionOf u), currentUser := Some u,
                   currentView := DASHBOARD, viewHistory := []\<rparr>)
      | None \<Rightarrow> (False, s))"

section \<open>Optimistic mutations\<close>

text \<open>
  An asynchronous mutation is run to its end: the optimistic change, the remote call, and
  on failure the compensation. The identifier that \<^verbatim>\<open>generateId\<close> draws, the clock and
  the answer of the remote store are arguments. The argument \<open>data\<close> of a create is a
  record of the entity whose omitted fields are overwritten, as the spread
  \<^verbatim>\<open>{...data, id: newId, ...}\<close> does.
\<close>

definition removeById :: "string \<Rightarrow> 'a Item_scheme list \<Rightarrow> 'a Item_scheme list" where
  "removeById newId xs = filter (\<lambda>a. item_id a \<noteq> newId) xs"

definition addAnnouncement ::
  "AppState \<Rightarrow> Announcement \<Rightarrow> string \<Rightarrow> bool \<Rightarrow> AppState \<times> RemoteCall list" where
  "addAnnouncement s data newId ok =
     (case currentUser s of
        None \<Rightarrow> (s, [])
      | Some u \<Rightarrow>
          (let newAnn = data\<lparr>item_id := newId, authorId := user_id u, authorName := user_name u\<rparr>;
               s1 = s\<lparr>announcements := newAnn # announcements s\<rparr>
           in (if ok then s1 else s1\<lparr>announcements := removeById newId (announcements s1)\<rparr>,
               [Insert ''announcements'' newId])))"

definition addExam ::
  "AppState \<Rightarrow> Exam \<Rightarrow> string \<Rightarrow> bool \<Rightarrow> AppState \<times> RemoteCall list" where
  "addExam s data newId ok =
     (case currentUser s of
        None \<Rightarrow> (s, [])
      | Some u \<Rightarrow>
          (let newExam = data\<lparr>item_id := newId, exam_createdById := user_id u\<rparr>;
               s1 = s\<lparr>exams := exams s @ [newExam]\<rparr>
           in (if ok then s1 else s1\<lparr>exams := removeById newId (exams s1)\<rparr>,
               [Insert ''exams'' newId])))"

definition addPoll ::
  "AppState \<Rightarrow> Poll \<Rightarrow> string \<Rightarrow> int \<Rightarrow> bool \<Rightarrow> AppState \<times> RemoteCall list" where
  "addPoll s data newId now ok =
     (case currentUser s of
        None \<Rightarrow> (s, [])
      | Some u \<Rightarrow>
          (let newPoll = data\<lparr>item_id := newId, poll_createdById := user_id u,
                              createdAt := now, userVotes := Map.empty\<rparr>;
               s1 = s\<lparr>polls := newPoll # polls s\<rparr>
           in (if ok then s1 else s1\<lparr>polls := removeById newId (polls s1)\<rparr>,
               [Insert ''polls'' newId])))"

definition addResource ::
  "AppState \<Rightarrow> Resource \<Rightarrow> string \<Rightarrow> int \<Rightarrow> bool \<Rightarrow> AppState \<times> RemoteCall list" where
  "addResource s data newId now ok =
     (case currentUser s of
        None \<Rightarrow> (s, [])
      | Some u \<Rightarrow>
          (let newRes = data\<lparr>item_id := newId, res_createdAt := now,
                             res_createdById := user_id u\<rparr>;
               s1 = s\<lparr>resources := newRes # resources s\<rparr>
           in (if ok then s1 else s1\<lparr>resources := removeById newId (resources s1)\<rparr>,
               [Insert ''resources'' newId])))"

definition updatePoll :: "AppState \<Rightarrow> Poll \<Rightarrow> bool \<Rightarrow> AppState \<times> RemoteCall list" where
  "updatePoll s updatedPoll ok =
     (let prevPolls = polls s;
          s1 = s\<lparr>polls := map (\<lambda>p. if item_id p = item_id updatedPoll then updatedPoll else p)
                             (polls s)\<rparr>
      in (if ok then s1 else s1\<lparr>polls := prevPolls\<rparr>,
          [Update ''polls'' (item_id updatedPoll)]))"

subsection \<open>Voting\<close>

text \<open>
  The body of the \<^verbatim>\<open>map\<close> over the options: first the decrement of the option voted
  before, with \<^verbatim>\<open>Math.max(0, voteCount - 1)\<close>, then the increment of the chosen one.
\<close>

definition updatedOption :: "string option \<Rightarrow> string \<Rightarrow> PollOption \<Rightarrow> PollOption" where
  "updatedOption previousOptionId optionId opt =
     (let voteCount = votes opt;
          voteCount = (if Some (opt_id opt) = previousOptionId then max 0 (voteCount - 1)
                       else voteCount);
          voteCount = (if opt_id opt = optionId then voteCount + 1 else voteCount)
      in opt\<lparr>votes := voteCount\<rparr>)"

text \<open>Step 2 of \<^verbatim>\<open>votePoll\<close>: the poll after the vote of user \<open>u\<close> for \<open>optionId\<close>.\<close>

definition updatedPollOf :: "User \<Rightarrow> Poll \<Rightarrow> string \<Rightarrow> Poll" where
  "updatedPollOf u pollToUpdate optionId =
     (let previousOptionId = userVotes pollToUpdate (user_id u);
          updatedUserVotes = (userVotes pollToUpdate)(user_id u \<mapsto> optionId);
          updatedOptions = map (updatedOption previousOptionId optionId) (options pollToUpdate)
      in pollToUpdate\<lparr>userVotes := updatedUserVotes, options := updatedOptions\<rparr>)"

text \<open>
  The last argument is the answer to the remote update: \<^term>\<open>None\<close> when it succeeded,
  and when it failed, what the store answers to the reload that follows.
\<close>

definition votePoll ::
  "AppState \<Rightarrow> string \<Rightarrow> string \<Rightarrow> RemoteDb option \<Rightarrow> AppState \<times> RemoteCall list" where
  "votePoll s pollId optionId failure =
     (case currentUser s of
        None \<Rightarrow> (s, [])
      | Some u \<Rightarrow>
          (case find (\<lambda>p. item_id p = pollId) (polls s) of
             None \<Rightarrow> (s, [])
           | Some pollToUpdate \<Rightarrow>
               if userVotes pollToUpdate (user_id u) = Some optionId then (s, [])
               else
                 (let updatedPoll = updatedPollOf u pollToUpdate optionId;
                      s1 = s\<lparr>polls := map (\<lambda>p. if item_id p = pollId then updatedPoll else p)
                                         (polls s)\<rparr>
                  in (case failure of
                        None \<Rightarrow> (s1, [Update ''polls'' pollId])
                      | Some db \<Rightarrow>
                          (let (s2, calls) = fetchData db s1
                           in (s2, Update ''polls'' pollId # calls))))))"

section \<open>Notifications\<close>

text \<open>
  The three loops of \<^verbatim>\<open>notifications\<close>, each as the list of what it pushes for one item.
  \<open>fmt\<close> is \<^verbatim>\<open>Date.toLocaleDateString\<close>, which depends on the browser's locale.
\<close>

definition examAlerts :: "(int \<Rightarrow> string) \<Rightarrow> int \<Rightarrow> Exam \<Rightarrow> AppNotification list" where
  "examAlerts fmt now exam =
     (let daysLeft = differenceInDays (exam_date exam) now
      in if daysLeft \<ge> 0 \<and> daysLeft \<le> 7 then
           [\<lparr>notif_id = ''exam-'' @ item_id exam, notif_type = alert,
             notif_title = ''Examen: '' @ exam_subject exam,
             message = ''Le '' @ fmt (exam_date exam) @ '' ('' @ startTime exam @ '')'',
             linkTo = DS, timestamp = exam_date exam\<rparr>]
         else [])"

definition announcementInfos :: "int \<Rightarrow> Announcement \<Rightarrow> AppNotification list" where
  "announcementInfos now ann =
     (let hoursAgo = differenceInHours now (ann_date ann)
      in if hoursAgo \<ge> 0 \<and> hoursAgo \<le> 48 then
           [\<lparr>notif_id = ''ann-'' @ item_id ann, notif_type = info,
             notif_title = (if isUrgent ann then ''URGENT: '' @ ann_title ann
                            else ''Annonce: '' @ ann_title ann),
             message = ann_subject ann,
             linkTo = INFOS, timestamp = ann_date ann\<rparr>]
         else [])"

definition pollSuccesses :: "User \<Rightarrow> int \<Rightarrow> Poll \<Rightarrow> AppNotification list" where
  "pollSuccesses u now poll =
     (let hoursAgo = differenceInHours now (createdAt poll);
          hasVoted = \<not> falsy (userVotes poll (user_id u))
      in if hoursAgo \<ge> 0 \<and> hoursAgo \<le> 48 \<and> \<not> hasVoted then
           [\<lparr>notif_id = ''poll-'' @ item_id poll, notif_type = success,
             notif_title = ''Nouveau sondage'',
             message = poll_title poll,
             linkTo = POLLS, timestamp = createdAt poll\<rparr>]
         else [])"

text \<open>
  \<^verbatim>\<open>Array.prototype.sort\<close> is stable; with the comparator
  \<^verbatim>\<open>b.timestamp - a.timestamp\<close> it sorts by descending time stamp.
\<close>

definition notifications :: "(int \<Rightarrow> string) \<Rightarrow> int \<Rightarrow> AppState \<Rightarrow> AppNotification list" where
  "notifications fmt now s =
     (case currentUser s of
        None \<Rightarrow> []
      | Some u \<Rightarrow>
          sort_key (\<lambda>n. - timestamp n)
            (concat (map (examAlerts fmt now) (filteredExams s)) @
             concat (map (announcementInfos now) (filteredAnnouncements s)) @
             concat (map (pollSuccesses u now) (filteredPolls s))))"

section \<open>Vote counts and the ledger\<close>

text \<open>
  \<^verbatim>\<open>totalVotes\<close> is the sum that the poll view shows as the number of participants.
\<close>

definition totalVotes :: "Poll \<Rightarrow> int" where
  "totalVotes p = sum_list (map votes (options p))"

definition ledgerSize :: "Poll \<Rightarrow> nat" where
  "ledgerSize p = card (dom (userVotes p))"

definition votersOf :: "(string \<rightharpoonup> string) \<Rightarrow> string \<Rightarrow> string set" where
  "votersOf ledger oid = {uid. ledger uid = Some oid}"

text \<open>
  A poll is consistent when its ledger is finite (as every object is), its options have
  distinct ids, every ledger entry selects one of its options, and the count of every
  option is the number of ledger entries that select it.
\<close>

definition consistent :: "Poll \<Rightarrow> bool" where
  "consistent p =
     (finite (dom (userVotes p)) \<and>
      distinct (map opt_id (options p)) \<and>
      ran (userVotes p) \<subseteq> set (map opt_id (options p)) \<and>
      (\<forall>opt \<in> set (options p). votes opt = int (card (votersOf (userVotes p) (opt_id opt)))))"

text \<open>The options of a poll as the poll form creates them: distinct ids, no votes.\<close>

definition freshOptions :: "PollOption list \<Rightarrow> bool" where
  "freshOptions opts = (distinct (map opt_id opts) \<and> (\<forall>opt \<in> set opts. votes opt = 0))"

text \<open>
  The same of a poll as the store holds it, on the row's own columns. A row whose column
  \<^verbatim>\<open>voted_user_ids\<close> is an object is consistent when that ledger and the stored options
  are; a row with no ledger, or with one in the old array format, when its options have
  distinct ids and no votes.
\<close>

definition storedOptions :: "PollRow \<Rightarrow> PollOption list" where
  "storedOptions r = (case row_options r of None \<Rightarrow> [] | Some opts \<Rightarrow> opts)"

definition consistentRow :: "PollRow \<Rightarrow> bool" where
  "consistentRow r =
     (case voted_user_ids r of
        VotedObject ledger \<Rightarrow>
          finite (dom ledger) \<and>
          distinct (map opt_id (storedOptions r)) \<and>
          ran ledger \<subseteq> set (map opt_id (storedOptions r)) \<and>
          (\<forall>opt \<in> set (storedOptions r).
             votes opt = int (card (votersOf ledger (opt_id opt))))
      | VotedArray ids \<Rightarrow> freshOptions (storedOptions r)
      | VotedNull \<Rightarrow> freshOptions (storedOptions r))"

definition consistentRows :: "RemoteDb \<Rightarrow> bool" where
  "consistentRows db =
     (case pollData db of
        Inl e \<Rightarrow> True
      | Inr rows \<Rightarrow> \<forall>r \<in> set rows. consistentRow r)"

text \<open>
  The states reachable from the initial one by the bulk load, a login, \<^verbatim>\<open>addPoll\<close>,
  \<^verbatim>\<open>updatePoll\<close> and \<^verbatim>\<open>votePoll\<close>, with any arguments and any answer of the store.
\<close>

inductive reachable :: "AppState \<Rightarrow> bool" where
  reach_init: "reachable (initialState stored)"
| reach_load: "reachable s \<Longrightarrow> reachable (fst (fetchData db s))"
| reach_login: "reachable s \<Longrightarrow> reachable (snd (handleLogin toLowerCase s em pw))"
| reach_add: "reachable s \<Longrightarrow> reachable (fst (addPoll s data newId now ok))"
| reach_update: "reachable s \<Longrightarrow> reachable (fst (updatePoll s updatedPoll ok))"
| reach_vote: "reachable s \<Longrightarrow> reachable (fst (votePoll s pollId optionId failure))"

text \<open>
  The same, where the store only holds consistent rows, a poll is created with fresh
  options, is replaced by a consistent poll, and a vote is for an option of the poll.
\<close>

definition optionOfPoll :: "AppState \<Rightarrow> string \<Rightarrow> string \<Rightarrow> bool" where
  "optionOfPoll s pollId optionId =
     (case find (\<lambda>p. item_id p = pollId) (polls s) of
        None \<Rightarrow> True
      | Some p \<Rightarrow> optionId \<in> set (map opt_id (options p)))"

inductive reachableConsistent :: "AppState \<Rightarrow> bool" where
  rc_init: "reachableConsistent (initialState stored)"
| rc_load: "reachableConsistent s \<Longrightarrow> consistentRows db \<Longrightarrow>
     reachableConsistent (fst (fetchData db s))"
| rc_login: "reachableConsistent s \<Longrightarrow>
     reachableConsistent (snd (handleLogin toLowerCase s em pw))"
| rc_add: "reachableConsistent s \<Longrightarrow> freshOptions (options data) \<Longrightarrow>
     reachableConsistent (fst (addPoll s data newId now ok))"
| rc_update: "reachableConsistent s \<Longrightarrow> consistent updatedPoll \<Longrightarrow>
     reachableConsistent (fst (updatePoll s updatedPoll ok))"
| rc_vote: "reachableConsistent s \<Longrightarrow> optionOfPoll s pollId optionId \<Longrightarrow>
     (case failure of None \<Rightarrow> True | Some db \<Rightarrow> consistentRows db) \<Longrightarrow>
     reachableConsistent (fst (votePoll s pollId optionId failure))"

definition consistentState :: "AppState \<Rightarrow> bool" where
  "consistentState s = (\<forall>p \<in> set (polls s). consistent p)"

section \<open>Sample data\<close>

text \<open>Two pupils of different classes, and the administrator created on first load.\<close>

definition awa :: User where
  "awa = \<lparr>user_id = ''u-awa'', user_name = ''Awa'', email = ''awa@eco.com'',
          password = ''awa-pass'', role = ELEVE, classGroup = Some ''10A''\<rparr>"

definition binta :: User where
  "binta = \<lparr>user_id = ''u-binta'', user_name = ''Binta'', email = ''binta@eco.com'',
            password = ''binta-pass'', role = ELEVE, classGroup = Some ''10B''\<rparr>"

text \<open>
  A school-wide item, an item for class 10A, and an item whose target class is the empty
  string.
\<close>

definition schoolWide :: Item where
  "schoolWide = \<lparr>item_id = ''i1'', targetClass = None\<rparr>"

definition only10A :: Item where
  "only10A = \<lparr>item_id = ''i2'', targetClass = Some ''10A''\<rparr>"

definition emptyTarget :: Item where
  "emptyTarget = \<lparr>item_id = ''i3'', targetClass = Some []\<rparr>"

text \<open>A poll with two options on which Awa has voted for the first.\<close>

definition outing :: Poll where
  "outing =
     \<lparr>item_id = ''p1'', targetClass = None, poll_title = ''Sortie'',
      options = [\<lparr>opt_id = ''a'', opt_text = ''Oui'', votes = 1\<rparr>,
                 \<lparr>opt_id = ''b'', opt_text = ''Non'', votes = 0\<rparr>],
      isAnonymous = False, createdAt = 0, expiresAt = 7 * MS_PER_DAY,
      poll_createdById = ''admin-init'', userVotes = [''u-awa'' \<mapsto> ''a'']\<rparr>"

text \<open>What the poll form passes to \<^verbatim>\<open>addPoll\<close>: the same poll with no vote.\<close>

definition outingForm :: Poll where
  "outingForm =
     outing\<lparr>options := [\<lparr>opt_id = ''a'', opt_text = ''Oui'', votes = 0\<rparr>,
                          \<lparr>opt_id = ''b'', opt_text = ''Non'', votes = 0\<rparr>],
            userVotes := Map.empty\<rparr>"

definition mathsExam :: Exam where
  "mathsExam =
     \<lparr>item_id = ''e1'', targetClass = None, exam_subject = ''Maths'',
      exam_date = 7 * MS_PER_DAY, startTime = ''08:00'', durationMinutes = 120,
      room = ''B12'', exam_notes = None, exam_createdById = ''admin-init''\<rparr>"

definition classroom :: AppState where
  "classroom =
     (initialState None)\<lparr>currentUser := Some awa, users := [DEFAULT_ADMIN, awa, binta],
                          exams := [mathsExam], polls := [outing], isLoading := False\<rparr>"

text \<open>A store with no rows, and the same store with one poll in the old array format.\<close>

definition emptyDb :: RemoteDb where
  "emptyDb =
     \<lparr>settingsData = None, classesData = Some [], userData = Inr [], initAdminOk = True,
      annData = Inr [], examData = Inr [], pollData = Inr [], resData = Inr []\<rparr>"

definition legacyRow :: PollRow where
  "legacyRow =
     \<lparr>item_id = ''p0'', targetClass = None, row_title = ''Cantine'',
      row_options = Some [\<lparr>opt_id = ''a'', opt_text = ''Oui'', votes = 1\<rparr>],
      is_anonymous = False, created_at = 0, expires_at = 7 * MS_PER_DAY,
      created_by_id = ''admin-init'', voted_user_ids = VotedArray [''u-awa'']\<rparr>"

definition legacyDb :: RemoteDb where
  "legacyDb = emptyDb\<lparr>pollData := Inr [legacyRow]\<rparr>"

text \<open>
  A store that holds the three users and the poll \<^term>\<open>outing\<close> with Awa's vote in its
  ledger.
\<close>

definition outingRow :: PollRow where
  "outingRow =
     \<lparr>item_id = ''p1'', targetClass = None, row_title = ''Sortie'',
      row_options = Some [\<lparr>opt_id = ''a'', opt_text = ''Oui'', votes = 1\<rparr>,
                          \<lparr>opt_id = ''b'', opt_text = ''Non'', votes = 0\<rparr>],
      is_anonymous = False, created_at = 0, expires_at = 7 * MS_PER_DAY,
      created_by_id = ''admin-init'', voted_user_ids = VotedObject [''u-awa'' \<mapsto> ''a'']\<rparr>"

definition storedDb :: RemoteDb where
  "storedDb = emptyDb\<lparr>userData := Inr [DEFAULT_ADMIN, awa, binta], pollData := Inr [outingRow]\<rparr>"

text \<open>
  What the poll form passes to \<^verbatim>\<open>addPoll\<close> for a poll with three options; the omitted
  fields are empty.
\<close>

definition menuForm :: Poll where
  "menuForm =
     \<lparr>item_id = [], targetClass = None, poll_title = ''Menu'',
      options = [\<lparr>opt_id = ''a'', opt_text = ''Riz'', votes = 0\<rparr>,
                 \<lparr>opt_id = ''b'', opt_text = ''Mil'', votes = 0\<rparr>,
                 \<lparr>opt_id = ''c'', opt_text = ''Pain'', votes = 0\<rparr>],
      isAnonymous = False, createdAt = 0, expiresAt = 7 * MS_PER_DAY,
      poll_createdById = [], userVotes = Map.empty\<rparr>"

text \<open>
  A session of the administrator, whose session is in the local storage: the load of
  \<^term>\<open>storedDb\<close>, the creation of the poll of \<^term>\<open>menuForm\<close>, a vote for option b of the
  first poll and a vote for option c of the new one. \<^term>\<open>menuVoted\<close> and
  \<^term>\<open>outingVoted\<close> are the two polls after it.
\<close>

definition beforeEdit :: AppState where
  "beforeEdit =
     fst (votePoll
       (fst (votePoll
         (fst (addPoll
           (fst (fetchData storedDb (initialState (Some (SessionOf DEFAULT_ADMIN)))))
           menuForm ''p2'' 5000 True))
         ''p1'' ''b'' None))
       ''p2'' ''c'' None)"

definition menuVoted :: Poll where
  "menuVoted =
     \<lparr>item_id = ''p2'', targetClass = None, poll_title = ''Menu'',
      options = [\<lparr>opt_id = ''a'', opt_text = ''Riz'', votes = 0\<rparr>,
                 \<lparr>opt_id = ''b'', opt_text = ''Mil'', votes = 0\<rparr>,
                 \<lparr>opt_id = ''c'', opt_text = ''Pain'', votes = 1\<rparr>],
      isAnonymous = False, createdAt = 5000, expiresAt = 7 * MS_PER_DAY,
      poll_createdById = ''admin-init'', userVotes = [''admin-init'' \<mapsto> ''c'']\<rparr>"

definition outingVoted :: Poll where
  "outingVoted =
     outing\<lparr>options := [\<lparr>opt_id = ''a'', opt_text = ''Oui'', votes = 1\<rparr>,
                          \<lparr>opt_id = ''b'', opt_text = ''Non'', votes = 1\<rparr>],
            userVotes := [''u-awa'' \<mapsto> ''a'', ''admin-init'' \<mapsto> ''b'']\<rparr>"

text \<open>
  Two edits of the new poll, as the poll form passes them to \<^verbatim>\<open>updatePoll\<close>
  (\<^verbatim>\<open>{...existingPoll, title, options: updatedOptions, ...}\<close>, where the option at each
  index keeps its id and its count and takes the text of the field): one that changes the
  title and a text, and one made after the third field was removed, which keeps the
  first two options and the ledger.
\<close>

definition menuRenamed :: Poll where
  "menuRenamed =
     menuVoted\<lparr>poll_title := ''Menu de vendredi'',
                 options := [\<lparr>opt_id = ''a'', opt_text = ''Riz au poisson'', votes = 0\<rparr>,
                             \<lparr>opt_id = ''b'', opt_text = ''Mil'', votes = 0\<rparr>,
                             \<lparr>opt_id = ''c'', opt_text = ''Pain'', votes = 1\<rparr>]\<rparr>"

definition menuCut :: Poll where
  "menuCut =
     menuVoted\<lparr>options := [\<lparr>opt_id = ''a'', opt_text = ''Riz'', votes = 0\<rparr>,
                             \<lparr>opt_id = ''b'', opt_text = ''Mil'', votes = 0\<rparr>]\<rparr>"

section \<open>Lemmas\<close>

subsection \<open>Removal by id\<close>

lemma removeById_fresh:
  "newId \<notin> item_id ` set xs \<Longrightarrow> removeById newId xs = xs"
  by (induction xs) (auto simp: removeById_def)

lemma addAnnouncement_failed:
  assumes "newId \<notin> item_id ` set (announcements s)"
  shows "fst (addAnnouncement s ann newId False) = s"
proof (cases "currentUser s")
  case None
  then show ?thesis by (simp add: addAnnouncement_def)
next
  case (Some u)
  have "removeById newId (announcements s) = announcements s"
    using assms by (rule removeById_fresh)
  then show ?thesis
    using Some by (simp add: addAnnouncement_def Let_def removeById_def)
qed

lemma addExam_failed:
  assumes "newId \<notin> item_id ` set (exams s)"
  shows "fst (addExam s exam newId False) = s"
proof (cases "currentUser s")
  case None
  then show ?thesis by (simp add: addExam_def)
next
  case (Some u)
  have "removeById newId (exams s) = exams s"
    using assms by (rule removeById_fresh)
  then show ?thesis
    using Some by (simp add: addExam_def Let_def removeById_def)
qed

lemma addPoll_failed:
  assumes "newId \<notin> item_id ` set (polls s)"
  shows "fst (addPoll s poll newId now False) = s"
proof (cases "currentUser s")
  case None
  then show ?thesis by (simp add: addPoll_def)
next
  case (Some u)
  have "removeById newId (polls s) = polls s"
    using assms by (rule removeById_fresh)
  then show ?thesis
    using Some by (simp add: addPoll_def Let_def removeById_def)
qed

lemma addResource_failed:
  assumes "newId \<notin> item_id ` set (resources s)"
  shows "fst (addResource s res newId now False) = s"
proof (cases "currentUser s")
  case None
  then show ?thesis by (simp add: addResource_def)
next
  case (Some u)
  have "removeById newId (resources s) = resources s"
    using assms by (rule removeById_fresh)
  then show ?thesis
    using Some by (simp add: addResource_def Let_def removeById_def)
qed

subsection \<open>One vote\<close>

lemma updatedOption_id [simp]: "opt_id (updatedOption prev oid opt) = opt_id opt"
  by (simp add: updatedOption_def Let_def)

lemma updatedOption_text [simp]: "opt_text (updatedOption prev oid opt) = opt_text opt"
  by (simp add: updatedOption_def Let_def)

lemma updatedOption_votes:
  "prev \<noteq> Some oid \<Longrightarrow>
   votes (updatedOption prev oid opt) =
     (if Some (opt_id opt) = prev then max 0 (votes opt - 1)
      else if opt_id opt = oid then votes opt + 1
      else votes opt)"
  by (auto simp: updatedOption_def Let_def)

subsection \<open>Visibility\<close>

lemma visibleTo_iff:
  "visibleTo u a \<longleftrightarrow>
     targetClass a = None \<or> targetClass a = Some [] \<or> targetClass a = classGroup u"
  by (auto simp: visibleTo_def falsy_def split: option.splits)

subsection \<open>Consistent polls\<close>

lemma votersOf_subset_dom: "votersOf m oid \<subseteq> dom m"
  by (auto simp: votersOf_def)

lemma finite_votersOf: "finite (dom m) \<Longrightarrow> finite (votersOf m oid)"
  using votersOf_subset_dom by (rule finite_subset)

lemma votersOf_disjoint: "a \<noteq> b \<Longrightarrow> votersOf m a \<inter> votersOf m b = {}"
  by (auto simp: votersOf_def)

lemma dom_eq_Union_votersOf:
  assumes "ran m \<subseteq> ids"
  shows "dom m = (\<Union>oid \<in> ids. votersOf m oid)"
proof
  show "dom m \<subseteq> (\<Union>oid \<in> ids. votersOf m oid)"
  proof
    fix uid assume "uid \<in> dom m"
    then obtain oid where h: "m uid = Some oid" by auto
    then have "oid \<in> ran m" by (auto simp: ran_def)
    with assms have "oid \<in> ids" by auto
    with h show "uid \<in> (\<Union>oid \<in> ids. votersOf m oid)" by (auto simp: votersOf_def)
  qed
  show "(\<Union>oid \<in> ids. votersOf m oid) \<subseteq> dom m"
    using votersOf_subset_dom by fast
qed

lemma consistent_total:
  assumes "consistent p"
  shows "totalVotes p = int (ledgerSize p)"
proof -
  let ?m = "userVotes p"
  let ?ids = "set (map opt_id (options p))"
  from assms have fin: "finite (dom ?m)" and dist: "distinct (map opt_id (options p))"
    and ran: "ran ?m \<subseteq> ?ids"
    and cnt: "\<forall>opt \<in> set (options p). votes opt = int (card (votersOf ?m (opt_id opt)))"
    by (simp_all add: consistent_def)
  have "totalVotes p = sum_list (map (\<lambda>opt. int (card (votersOf ?m (opt_id opt)))) (options p))"
    unfolding totalVotes_def using cnt by (intro arg_cong[where f=sum_list] map_cong) auto
  also have "\<dots> = sum_list (map (\<lambda>oid. int (card (votersOf ?m oid))) (map opt_id (options p)))"
    by (simp add: comp_def)
  also have "\<dots> = (\<Sum>oid \<in> ?ids. int (card (votersOf ?m oid)))"
    using dist by (rule sum_list_distinct_conv_sum_set)
  also have "\<dots> = int (\<Sum>oid \<in> ?ids. card (votersOf ?m oid))"
    by simp
  also have "(\<Sum>oid \<in> ?ids. card (votersOf ?m oid)) = card (\<Union>oid \<in> ?ids. votersOf ?m oid)"
    using fin by (intro card_UN_disjoint[symmetric]) (auto simp: finite_votersOf votersOf_disjoint)
  also have "(\<Union>oid \<in> ?ids. votersOf ?m oid) = dom ?m"
    using dom_eq_Union_votersOf[OF ran] by simp
  finally show ?thesis by (simp add: ledgerSize_def)
qed

lemma votersOf_upd_same:
  "votersOf (m(uid \<mapsto> oid)) oid = insert uid (votersOf m oid)"
  by (auto simp: votersOf_def)

lemma votersOf_upd_other:
  "oid' \<noteq> oid \<Longrightarrow> votersOf (m(uid \<mapsto> oid)) oid' = votersOf m oid' - {uid}"
  by (auto simp: votersOf_def)

lemma consistent_updatedPollOf:
  assumes con: "consistent p"
    and mem: "optionId \<in> set (map opt_id (options p))"
    and neq: "userVotes p (user_id u) \<noteq> Some optionId"
  shows "consistent (updatedPollOf u p optionId)"
proof -
  let ?m = "userVotes p"
  let ?uid = "user_id u"
  let ?m' = "?m(?uid \<mapsto> optionId)"
  let ?p' = "updatedPollOf u p optionId"
  from con have fin: "finite (dom ?m)" and dist: "distinct (map opt_id (options p))"
    and ran: "ran ?m \<subseteq> set (map opt_id (options p))"
    and cnt: "\<forall>opt \<in> set (options p). votes opt = int (card (votersOf ?m (opt_id opt)))"
    by (simp_all add: consistent_def)
  have led: "userVotes ?p' = ?m'" by (simp add: updatedPollOf_def Let_def)
  have opts: "options ?p' = map (updatedOption (?m ?uid) optionId) (options p)"
    by (simp add: updatedPollOf_def Let_def)
  have ids: "map opt_id (options ?p') = map opt_id (options p)"
    by (simp add: opts comp_def)
  have ran': "ran ?m' \<subseteq> set (map opt_id (options p))"
  proof
    fix x assume "x \<in> ran ?m'"
    then obtain k where "?m' k = Some x" by (auto simp: ran_def)
    then have "x = optionId \<or> ?m k = Some x" by (auto split: if_splits)
    then show "x \<in> set (map opt_id (options p))"
      using mem ran by (auto simp: ran_def)
  qed
  have cnt': "votes (updatedOption (?m ?uid) optionId opt) = int (card (votersOf ?m' (opt_id opt)))"
    if "opt \<in> set (options p)" for opt
  proof -
    have c: "votes opt = int (card (votersOf ?m (opt_id opt)))" using cnt that by simp
    have f: "finite (votersOf ?m (opt_id opt))" using fin by (rule finite_votersOf)
    show ?thesis
    proof (cases "opt_id opt = optionId")
      case True
      have "?uid \<notin> votersOf ?m optionId" using neq by (simp add: votersOf_def)
      then have "card (votersOf ?m' optionId) = Suc (card (votersOf ?m optionId))"
        using f True by (simp add: votersOf_upd_same)
      then show ?thesis using True c neq by (simp add: updatedOption_votes)
    next
      case False
      show ?thesis
      proof (cases "?m ?uid = Some (opt_id opt)")
        case True
        then have "?uid \<in> votersOf ?m (opt_id opt)" by (simp add: votersOf_def)
        then have "card (votersOf ?m (opt_id opt) - {?uid}) = card (votersOf ?m (opt_id opt)) - 1"
          and "card (votersOf ?m (opt_id opt)) > 0"
          using f by (auto simp: card_gt_0_iff)
        then show ?thesis using True False c neq
          by (simp add: updatedOption_votes votersOf_upd_other)
      next
        case no: False
        then have "?uid \<notin> votersOf ?m (opt_id opt)" by (simp add: votersOf_def)
        then have "votersOf ?m (opt_id opt) - {?uid} = votersOf ?m (opt_id opt)" by simp
        then show ?thesis using no False c neq
          by (auto simp add: updatedOption_votes votersOf_upd_other)
      qed
    qed
  qed
  show ?thesis
    unfolding consistent_def led ids
    using fin dist ran' cnt' by (simp add: opts)
qed


lemma polls_fetchSettings [simp]: "polls (fetchSettings db s) = polls s"
  by (simp add: fetchSettings_def Let_def split: option.splits)

lemma polls_restoreSession [simp]: "polls (restoreSession us s) = polls s"
  by (simp add: restoreSession_def split: option.splits StoredSession.splits)

lemma polls_fetchResources [simp]: "polls (fetchResources db s) = polls s"
  by (simp add: fetchResources_def split: sum.splits)

lemma polls_fetchPolls:
  "polls (fst (fetchPolls db s)) =
     (case pollData db of Inl e \<Rightarrow> polls s | Inr rows \<Rightarrow> map mapPoll rows)"
  by (simp add: fetchPolls_def split: sum.splits)

text \<open>The loader turns a consistent row into a consistent poll, and only such a row.\<close>

lemma consistent_mapPoll: "consistent (mapPoll r) \<longleftrightarrow> consistentRow r"
proof (cases "voted_user_ids r")
  case VotedNull
  then show ?thesis
    by (simp add: consistent_def consistentRow_def mapPoll_def storedOptions_def
        freshOptions_def votersOf_def)
next
  case (VotedArray ids)
  then show ?thesis
    by (simp add: consistent_def consistentRow_def mapPoll_def storedOptions_def
        freshOptions_def votersOf_def)
next
  case (VotedObject ledger)
  then show ?thesis
    by (simp add: consistent_def consistentRow_def mapPoll_def storedOptions_def)
qed

lemma consistentState_fetchPolls:
  "consistentState s \<Longrightarrow> consistentRows db \<Longrightarrow> consistentState (fst (fetchPolls db s))"
  by (auto simp: consistentState_def consistentRows_def polls_fetchPolls consistent_mapPoll
      split: sum.splits)

lemma consistentState_fetchExams:
  "consistentState s \<Longrightarrow> consistentRows db \<Longrightarrow> consistentState (fst (fetchExams db s))"
proof (cases "examData db")
  case (Inl e)
  assume "consistentState s"
  then show ?thesis using Inl by (simp add: fetchExams_def consistentState_def)
next
  case (Inr rows)
  assume a: "consistentState s" "consistentRows db"
  then have "consistentState (s\<lparr>exams := rows\<rparr>)" by (simp add: consistentState_def)
  then have "consistentState (fst (fetchPolls db (s\<lparr>exams := rows\<rparr>)))"
    using a(2) by (rule consistentState_fetchPolls)
  then show ?thesis using Inr by (simp add: fetchExams_def split_beta)
qed

lemma consistentState_fetchAnnouncements:
  "consistentState s \<Longrightarrow> consistentRows db \<Longrightarrow>
   consistentState (fst (fetchAnnouncements db s))"
proof (cases "annData db")
  case (Inl e)
  assume "consistentState s"
  then show ?thesis using Inl by (simp add: fetchAnnouncements_def consistentState_def)
next
  case (Inr rows)
  assume a: "consistentState s" "consistentRows db"
  then have "consistentState (s\<lparr>announcements := rows\<rparr>)" by (simp add: consistentState_def)
  then have "consistentState (fst (fetchExams db (s\<lparr>announcements := rows\<rparr>)))"
    using a(2) by (rule consistentState_fetchExams)
  then show ?thesis using Inr by (simp add: fetchAnnouncements_def split_beta)
qed

lemma consistentState_fetchUsers:
  "consistentState s \<Longrightarrow> consistentRows db \<Longrightarrow> consistentState (fst (fetchUsers db s))"
proof (cases "userData db")
  case (Inl e)
  assume "consistentState s"
  then show ?thesis using Inl by (simp add: fetchUsers_def consistentState_def)
next
  case (Inr rows)
  assume a: "consistentState s" "consistentRows db"
  let ?us = "if rows = [] \<and> initAdminOk db then [DEFAULT_ADMIN] else rows"
  from a(1) have "consistentState (restoreSession ?us (s\<lparr>users := ?us\<rparr>))"
    by (simp add: consistentState_def)
  then have "consistentState (fst (fetchAnnouncements db (restoreSession ?us (s\<lparr>users := ?us\<rparr>))))"
    using a(2) by (rule consistentState_fetchAnnouncements)
  then show ?thesis using Inr by (simp add: fetchUsers_def split_beta Let_def)
qed

lemma consistentState_fetchData:
  assumes "consistentState s" and "consistentRows db"
  shows "consistentState (fst (fetchData db s))"
proof -
  from assms(1) have "consistentState (fetchSettings db (s\<lparr>dbError := None\<rparr>))"
    by (simp add: consistentState_def)
  then have "consistentState (fst (fetchUsers db (fetchSettings db (s\<lparr>dbError := None\<rparr>))))"
    using assms(2) by (rule consistentState_fetchUsers)
  then show ?thesis by (simp add: fetchData_def split_beta consistentState_def)
qed

lemma consistentState_handleLogin:
  "consistentState s \<Longrightarrow> consistentState (snd (handleLogin toLowerCase s em pw))"
  by (simp add: handleLogin_def consistentState_def split: option.splits)

lemma consistent_new_poll:
  assumes "freshOptions (options data)"
  shows "consistent (data\<lparr>item_id := newId, poll_createdById := c, createdAt := now,
                          userVotes := Map.empty\<rparr>)"
  using assms by (simp add: consistent_def freshOptions_def votersOf_def)

lemma consistentState_addPoll:
  assumes "consistentState s" and "freshOptions (options data)"
  shows "consistentState (fst (addPoll s data newId now ok))"
proof (cases "currentUser s")
  case None
  then show ?thesis using assms(1) by (simp add: addPoll_def)
next
  case (Some u)
  let ?new = "data\<lparr>item_id := newId, poll_createdById := user_id u, createdAt := now,
                    userVotes := Map.empty\<rparr>"
  have "consistent ?new" using assms(2) by (rule consistent_new_poll)
  then show ?thesis
    using Some assms(1)
    by (auto simp: addPoll_def Let_def consistentState_def removeById_def)
qed

lemma consistentState_updatePoll:
  assumes "consistentState s" and "consistent updatedPoll"
  shows "consistentState (fst (updatePoll s updatedPoll ok))"
  using assms by (auto simp: updatePoll_def Let_def consistentState_def)

lemma consistentState_votePoll:
  assumes cs: "consistentState s"
    and opt: "optionOfPoll s pollId optionId"
    and db: "case failure of None \<Rightarrow> True | Some db \<Rightarrow> consistentRows db"
  shows "consistentState (fst (votePoll s pollId optionId failure))"
proof (cases "currentUser s")
  case None
  then show ?thesis using cs by (simp add: votePoll_def)
next
  case (Some u)
  show ?thesis
  proof (cases "find (\<lambda>p. item_id p = pollId) (polls s)")
    case None
    then show ?thesis using cs Some by (simp add: votePoll_def)
  next
    case found: (Some P)
    show ?thesis
    proof (cases "userVotes P (user_id u) = Some optionId")
      case True
      then show ?thesis using cs Some found by (simp add: votePoll_def)
    next
      case False
      let ?s1 = "s\<lparr>polls := map (\<lambda>p. if item_id p = pollId then updatedPollOf u P optionId else p)
                                (polls s)\<rparr>"
      from found have "P \<in> set (polls s)" by (auto simp: find_Some_iff)
      then have "consistent P" using cs by (simp add: consistentState_def)
      moreover have "optionId \<in> set (map opt_id (options P))"
        using opt found by (simp add: optionOfPoll_def)
      ultimately have "consistent (updatedPollOf u P optionId)"
        using False by (rule consistent_updatedPollOf)
      then have s1: "consistentState ?s1"
        using cs by (auto simp: consistentState_def)
      show ?thesis
      proof (cases failure)
        case None
        then show ?thesis using s1 Some found False by (simp add: votePoll_def Let_def)
      next
        case (Some db')
        then have "consistentRows db'" using db by simp
        with s1 have "consistentState (fst (fetchData db' ?s1))"
          by (rule consistentState_fetchData)
        then show ?thesis
          using Some \<open>currentUser s = Some u\<close> found False
          by (simp add: votePoll_def Let_def split_beta)
      qed
    qed
  qed
qed

lemma reachableConsistent_consistentState:
  "reachableConsistent s \<Longrightarrow> consistentState s"
proof (induction rule: reachableConsistent.induct)
  case (rc_init stored)
  show ?case by (simp add: consistentState_def initialState_def)
next
  case (rc_load s db)
  then show ?case by (simp add: consistentState_fetchData)
next
  case (rc_login s em pw)
  then show ?case by (simp add: consistentState_handleLogin)
next
  case (rc_add s data newId now ok)
  then show ?case by (simp add: consistentState_addPoll)
next
  case (rc_update s updatedPoll ok)
  then show ?case by (simp add: consistentState_updatePoll)
next
  case (rc_vote s pollId optionId failure)
  then show ?case by (simp add: consistentState_votePoll)
qed

subsection \<open>Edits of a poll\<close>

text \<open>
  What the edit of the poll form does to the options keeps a poll consistent in three
  cases: the options take new texts (and the poll a new title, anonymity and target
  class); fresh options with new ids are appended; options that have no votes are cut
  from the end. The cut of an option that has votes does not.
\<close>

lemma opt_id_retext:
  "length opts = length texts \<Longrightarrow>
   map opt_id (map2 (\<lambda>opt text. opt\<lparr>opt_text := text\<rparr>) opts texts) = map opt_id opts"
  by (induction opts texts rule: list_induct2) auto

lemma votes_retext:
  assumes "opt \<in> set (map2 (\<lambda>opt text. opt\<lparr>opt_text := text\<rparr>) opts texts)"
  shows "\<exists>old \<in> set opts. opt_id opt = opt_id old \<and> votes opt = votes old"
proof -
  from assms obtain old fld where "(old, fld) \<in> set (zip opts texts)"
    and "opt = old\<lparr>opt_text := fld\<rparr>"
    by auto
  then show ?thesis by (auto dest: set_zip_leftD)
qed

lemma consistent_retext:
  assumes "consistent p" and "length texts = length (options p)"
  shows "consistent (p\<lparr>targetClass := tc, poll_title := t, isAnonymous := an,
            options := map2 (\<lambda>opt text. opt\<lparr>opt_text := text\<rparr>) (options p) texts\<rparr>)"
proof -
  define new where "new = map2 (\<lambda>opt text. opt\<lparr>opt_text := text\<rparr>) (options p) texts"
  have ids: "map opt_id new = map opt_id (options p)"
    unfolding new_def using assms(2) by (intro opt_id_retext) simp
  from assms(1) have fin: "finite (dom (userVotes p))"
    and dist: "distinct (map opt_id (options p))"
    and ran: "ran (userVotes p) \<subseteq> set (map opt_id (options p))"
    and cnt: "\<forall>opt \<in> set (options p). votes opt = int (card (votersOf (userVotes p) (opt_id opt)))"
    by (simp_all add: consistent_def)
  have cnt': "votes opt = int (card (votersOf (userVotes p) (opt_id opt)))"
    if "opt \<in> set new" for opt
  proof -
    from that obtain old where "old \<in> set (options p)" "opt_id opt = opt_id old"
      "votes opt = votes old"
      unfolding new_def using votes_retext by blast
    with cnt show ?thesis by simp
  qed
  have "consistent (p\<lparr>targetClass := tc, poll_title := t, isAnonymous := an, options := new\<rparr>)"
    unfolding consistent_def using fin dist ran cnt' by (simp add: ids)
  then show ?thesis by (simp add: new_def)
qed

lemma consistent_append:
  assumes "consistent p" and "freshOptions new"
    and "set (map opt_id new) \<inter> set (map opt_id (options p)) = {}"
  shows "consistent (p\<lparr>options := options p @ new\<rparr>)"
proof -
  have "votersOf (userVotes p) (opt_id opt) = {}" if "opt \<in> set new" for opt
  proof -
    from that assms(3) have "opt_id opt \<notin> set (map opt_id (options p))" by auto
    with assms(1) have "opt_id opt \<notin> ran (userVotes p)" by (auto simp: consistent_def)
    then show ?thesis by (auto simp: votersOf_def ran_def)
  qed
  then show ?thesis
    using assms unfolding consistent_def freshOptions_def by auto
qed

lemma consistent_cut:
  assumes "consistent p" and "\<forall>opt \<in> set (drop n (options p)). votes opt = 0"
  shows "consistent (p\<lparr>options := take n (options p)\<rparr>)"
proof -
  from assms(1) have fin: "finite (dom (userVotes p))"
    and dist: "distinct (map opt_id (options p))"
    and ran: "ran (userVotes p) \<subseteq> set (map opt_id (options p))"
    and cnt: "\<forall>opt \<in> set (options p). votes opt = int (card (votersOf (userVotes p) (opt_id opt)))"
    by (simp_all add: consistent_def)
  have none: "votersOf (userVotes p) (opt_id opt) = {}" if "opt \<in> set (drop n (options p))" for opt
  proof -
    from that have "opt \<in> set (options p)" by (rule in_set_dropD)
    with cnt assms(2) that have "card (votersOf (userVotes p) (opt_id opt)) = 0" by auto
    then show ?thesis using fin by (simp add: finite_votersOf)
  qed
  have ran': "ran (userVotes p) \<subseteq> set (map opt_id (take n (options p)))"
  proof
    fix x assume x: "x \<in> ran (userVotes p)"
    then obtain uid where u: "userVotes p uid = Some x" by (auto simp: ran_def)
    have "set (options p) = set (take n (options p)) \<union> set (drop n (options p))"
      by (metis append_take_drop_id set_append)
    with x ran
    have "x \<in> set (map opt_id (take n (options p))) \<or> x \<in> set (map opt_id (drop n (options p)))"
      by auto
    moreover have "x \<notin> set (map opt_id (drop n (options p)))"
    proof
      assume "x \<in> set (map opt_id (drop n (options p)))"
      then obtain opt where "opt \<in> set (drop n (options p))" "opt_id opt = x" by auto
      with none have "votersOf (userVotes p) x = {}" by auto
      with u show False by (auto simp: votersOf_def)
    qed
    ultimately show "x \<in> set (map opt_id (take n (options p)))" by simp
  qed
  have dist': "distinct (map opt_id (take n (options p)))"
    using dist by (simp add: take_map[symmetric])
  have cnt': "\<forall>opt \<in> set (take n (options p)).
      votes opt = int (card (votersOf (userVotes p) (opt_id opt)))"
    using cnt by (auto dest: in_set_takeD)
  show ?thesis
    unfolding consistent_def using fin dist' ran' cnt' by simp
qed

subsection \<open>Time windows and notifications\<close>

lemma days_window:
  "(0 \<le> differenceInDays d now \<and> differenceInDays d now \<le> 7) \<longleftrightarrow>
   (now - MS_PER_DAY < d \<and> d < now + 8 * MS_PER_DAY)"
  unfolding differenceInDays_def truncDiv_def MS_PER_DAY_def by (simp; arith)

lemma hours_window:
  "(0 \<le> differenceInHours now d \<and> differenceInHours now d \<le> 48) \<longleftrightarrow>
   (now - 49 * MS_PER_HOUR < d \<and> d < now + MS_PER_HOUR)"
  unfolding differenceInHours_def truncDiv_def MS_PER_HOUR_def by (simp; arith)

lemma falsy_iff: "falsy v \<longleftrightarrow> v = None \<or> v = Some []"
  by (simp add: falsy_def split: option.splits)

lemma length_examAlerts:
  "length (examAlerts fmt now e) =
     (if now - MS_PER_DAY < exam_date e \<and> exam_date e < now + 8 * MS_PER_DAY then 1 else 0)"
  using days_window[of "exam_date e" now] by (auto simp: examAlerts_def Let_def)

lemma length_pollSuccesses:
  "length (pollSuccesses u now p) =
     (if now - 49 * MS_PER_HOUR < createdAt p \<and> createdAt p < now + MS_PER_HOUR \<and>
         (userVotes p (user_id u) = None \<or> userVotes p (user_id u) = Some [])
      then 1 else 0)"
  using hours_window[of now "createdAt p"] by (auto simp: pollSuccesses_def Let_def falsy_iff)

lemma type_examAlerts: "n \<in> set (examAlerts fmt now e) \<Longrightarrow> notif_type n = alert"
  by (auto simp: examAlerts_def Let_def split: if_splits)

lemma type_announcementInfos: "n \<in> set (announcementInfos now a) \<Longrightarrow> notif_type n = info"
  by (auto simp: announcementInfos_def Let_def split: if_splits)

lemma type_pollSuccesses: "n \<in> set (pollSuccesses u now p) \<Longrightarrow> notif_type n = success"
  by (auto simp: pollSuccesses_def Let_def split: if_splits)

lemma filter_all: "(\<And>x. x \<in> set xs \<Longrightarrow> P x) \<Longrightarrow> filter P xs = xs"
  by (induction xs) auto

lemma filter_none: "(\<And>x. x \<in> set xs \<Longrightarrow> \<not> P x) \<Longrightarrow> filter P xs = []"
  by (induction xs) auto

lemma length_concat_examAlerts:
  "length (concat (map (examAlerts fmt now) es)) =
   length (filter (\<lambda>e. now - MS_PER_DAY < exam_date e \<and> exam_date e < now + 8 * MS_PER_DAY) es)"
  by (induction es) (simp_all add: length_examAlerts)

lemma length_concat_pollSuccesses:
  "length (concat (map (pollSuccesses u now) ps)) =
   length (filter (\<lambda>p. now - 49 * MS_PER_HOUR < createdAt p \<and> createdAt p < now + MS_PER_HOUR \<and>
         (userVotes p (user_id u) = None \<or> userVotes p (user_id u) = Some [])) ps)"
  by (induction ps) (simp_all add: length_pollSuccesses)

lemma alerts_of_notifications:
  assumes "currentUser s = Some u"
  shows "filter (\<lambda>n. notif_type n = alert) (notifications fmt now s) =
         sort_key (\<lambda>n. - timestamp n) (concat (map (examAlerts fmt now) (filteredExams s)))"
proof -
  have 1: "filter (\<lambda>n. notif_type n = alert) (concat (map (examAlerts fmt now) (filteredExams s)))
           = concat (map (examAlerts fmt now) (filteredExams s))"
    by (rule filter_all) (auto dest: type_examAlerts)
  have 2: "filter (\<lambda>n. notif_type n = alert)
             (concat (map (announcementInfos now) (filteredAnnouncements s))) = []"
    by (rule filter_none) (auto dest: type_announcementInfos)
  have 3: "filter (\<lambda>n. notif_type n = alert)
             (concat (map (pollSuccesses u now) (filteredPolls s))) = []"
    by (rule filter_none) (auto dest: type_pollSuccesses)
  show ?thesis
    using assms by (simp add: notifications_def filter_sort 1 2 3)
qed

lemma successes_of_notifications:
  assumes "currentUser s = Some u"
  shows "filter (\<lambda>n. notif_type n = success) (notifications fmt now s) =
         sort_key (\<lambda>n. - timestamp n) (concat (map (pollSuccesses u now) (filteredPolls s)))"
proof -
  have 1: "filter (\<lambda>n. notif_type n = success) (concat (map (examAlerts fmt now) (filteredExams s)))
           = []"
    by (rule filter_none) (auto dest: type_examAlerts)
  have 2: "filter (\<lambda>n. notif_type n = success)
             (concat (map (announcementInfos now) (filteredAnnouncements s))) = []"
    by (rule filter_none) (auto dest: type_announcementInfos)
  have 3: "filter (\<lambda>n. notif_type n = success)
             (concat (map (pollSuccesses u now) (filteredPolls s))) =
           concat (map (pollSuccesses u now) (filteredPolls s))"
    by (rule filter_all) (auto dest: type_pollSuccesses)
  show ?thesis
    using assms by (simp add: notifications_def filter_sort 1 2 3)
qed

subsection \<open>The sample data\<close>

lemma afterStoredLoad:
  "fst (fetchData storedDb (initialState (Some (SessionOf DEFAULT_ADMIN)))) =
     (initialState (Some (SessionOf DEFAULT_ADMIN)))
       \<lparr>currentUser := Some DEFAULT_ADMIN, users := [DEFAULT_ADMIN, awa, binta],
        polls := [outing], isLoading := False\<rparr>"
  by (simp add: fetchData_def fetchUsers_def fetchSettings_def fetchAnnouncements_def
      fetchExams_def fetchPolls_def fetchResources_def restoreSession_def emptyDb_def
      storedDb_def initialState_def mapPoll_def outingRow_def outing_def Let_def)

lemma polls_beforeEdit: "polls beforeEdit = [menuVoted, outingVoted]"
  unfolding beforeEdit_def afterStoredLoad
  by (simp add: addPoll_def votePoll_def updatedPollOf_def updatedOption_def initialState_def
      menuForm_def menuVoted_def outing_def outingVoted_def DEFAULT_ADMIN_def Let_def)

lemma consistentRow_outingRow: "consistentRow outingRow"
  by (simp add: consistentRow_def storedOptions_def outingRow_def votersOf_def ran_def)

lemma consistent_menuRenamed: "consistent menuRenamed"
  by (simp add: consistent_def menuRenamed_def menuVoted_def votersOf_def ran_def)


lemma reachableConsistent_beforeEdit: "reachableConsistent beforeEdit"
proof -
  let ?s0 = "initialState (Some (SessionOf DEFAULT_ADMIN))"
  let ?s1 = "fst (fetchData storedDb ?s0)"
  let ?s2 = "fst (addPoll ?s1 menuForm ''p2'' 5000 True)"
  let ?s3 = "fst (votePoll ?s2 ''p1'' ''b'' None)"
  have r0: "reachableConsistent ?s0" by (rule rc_init)
  have "consistentRows storedDb"
    by (simp add: consistentRows_def storedDb_def consistentRow_outingRow)
  with r0 have r1: "reachableConsistent ?s1" by (rule rc_load)
  have "freshOptions (options menuForm)"
    by (simp add: freshOptions_def menuForm_def)
  with r1 have r2: "reachableConsistent ?s2" by (rule rc_add)
  have p2: "polls ?s2 = [menuForm\<lparr>item_id := ''p2'', poll_createdById := ''admin-init'',
                                   createdAt := 5000, userVotes := Map.empty\<rparr>, outing]"
    unfolding afterStoredLoad
    by (simp add: addPoll_def Let_def initialState_def DEFAULT_ADMIN_def)
  have "optionOfPoll ?s2 ''p1'' ''b''"
    by (simp add: optionOfPoll_def p2 outing_def)
  with r2 have r3: "reachableConsistent ?s3"
    by (rule rc_vote) simp
  have u2: "currentUser ?s2 = Some DEFAULT_ADMIN"
    unfolding afterStoredLoad by (simp add: addPoll_def Let_def initialState_def)
  have "find (\<lambda>p. item_id p = ''p2'') (polls ?s3) =
        Some (menuForm\<lparr>item_id := ''p2'', poll_createdById := ''admin-init'',
                         createdAt := 5000, userVotes := Map.empty\<rparr>)"
    unfolding votePoll_def u2 p2
    by (simp add: outing_def Let_def DEFAULT_ADMIN_def)
  then have "optionOfPoll ?s3 ''p2'' ''c''"
    by (simp add: optionOfPoll_def menuForm_def)
  with r3 have "reachableConsistent (fst (votePoll ?s3 ''p2'' ''c'' None))"
    by (rule rc_vote) simp
  then show ?thesis by (simp add: beforeEdit_def)
qed

lemma reachable_beforeEdit: "reachable beforeEdit"
  unfolding beforeEdit_def
  by (intro reach_vote reach_add reach_load reach_init)

text \<open>
  The equality of the sum and the ledger size alone is not kept by a vote: the decrement
  stops at zero. Here the sum is 1 and the ledger has one entry, for an option whose count
  is 0; after the vote the sum is 2.
\<close>

lemma sum_alone_not_kept:
  "totalVotes (outing\<lparr>userVotes := [''u-awa'' \<mapsto> ''b'']\<rparr>) = 1 \<and>
   ledgerSize (outing\<lparr>userVotes := [''u-awa'' \<mapsto> ''b'']\<rparr>) = 1 \<and>
   totalVotes (updatedPollOf awa (outing\<lparr>userVotes := [''u-awa'' \<mapsto> ''b'']\<rparr>) ''a'') = 2 \<and>
   ledgerSize (updatedPollOf awa (outing\<lparr>userVotes := [''u-awa'' \<mapsto> ''b'']\<rparr>) ''a'') = 1"
  by (simp add: totalVotes_def ledgerSize_def updatedPollOf_def updatedOption_def outing_def
      awa_def Let_def)

subsection \<open>Letter case and login\<close>

text \<open>
  Two characters have the same lowered form exactly when they are the same letter, and so
  for strings; hence a function that lowers ASCII strings identifies exactly the ASCII
  strings that match without regard to case.
\<close>

lemma of_char_lowerAscii:
  "(of_char (lowerAscii c) :: nat) = (if isUpperAscii c then of_char c + 32 else of_char c)"
  by (simp add: lowerAscii_def isUpperAscii_def)

lemma lowerAscii_eq_iff: "lowerAscii a = lowerAscii b \<longleftrightarrow> sameLetter a b"
proof -
  have "lowerAscii a = lowerAscii b \<longleftrightarrow>
        (of_char (lowerAscii a) :: nat) = of_char (lowerAscii b)"
    by simp
  also have "\<dots> \<longleftrightarrow> sameLetter a b"
    unfolding of_char_lowerAscii sameLetter_def
    by (auto simp: isUpperAscii_def)
  finally show ?thesis .
qed

lemma map_lowerAscii_eq_iff:
  "map lowerAscii a = map lowerAscii b \<longleftrightarrow> equalIgnoringCase a b"
  unfolding equalIgnoringCase_def
proof (induction a arbitrary: b)
  case Nil
  then show ?case by auto
next
  case (Cons x xs)
  then show ?case by (cases b) (auto simp: lowerAscii_eq_iff)
qed

lemma lowered_eq_iff:
  assumes "lowersAscii toLowerCase" and "isAscii a" and "isAscii b"
  shows "toLowerCase a = toLowerCase b \<longleftrightarrow> equalIgnoringCase a b"
  using assms by (simp add: lowersAscii_def map_lowerAscii_eq_iff)

lemma lowersAscii_map: "lowersAscii (map lowerAscii)"
  by (simp add: lowersAscii_def)

lemma handleLogin_found:
  assumes "find (credentialsMatch toLowerCase em pw) (users s) = Some u"
  shows "fst (handleLogin toLowerCase s em pw) \<and>
         currentUser (snd (handleLogin toLowerCase s em pw)) = Some u \<and>
         u \<in> set (users s) \<and> toLowerCase (email u) = toLowerCase em \<and> password u = pw"
proof -
  from assms have "u \<in> set (users s) \<and> credentialsMatch toLowerCase em pw u"
    by (auto simp: find_Some_iff)
  then show ?thesis
    using assms by (simp add: handleLogin_def credentialsMatch_def)
qed

lemma handleLogin_not_found:
  assumes "find (credentialsMatch toLowerCase em pw) (users s) = None"
  shows "\<not> fst (handleLogin toLowerCase s em pw) \<and> snd (handleLogin toLowerCase s em pw) = s \<and>
         (\<forall>u \<in> set (users s). \<not> (toLowerCase (email u) = toLowerCase em \<and> password u = pw))"
proof -
  from assms have "\<forall>u \<in> set (users s). \<not> credentialsMatch toLowerCase em pw u"
    by (simp add: find_None_iff)
  then show ?thesis
    using assms by (simp add: handleLogin_def credentialsMatch_def)
qed

section \<open>The claims\<close>

text \<open>
  C1 (amended). The sum of the vote counts of a poll's options equals the number of entries
  of its ledger for every poll of every state reached from the initial one by bulk loads
  of a store whose poll rows are consistent (\<^term>\<open>consistentRow\<close>, on the stored options
  and ledger), logins, \<^verbatim>\<open>addPoll\<close> with fresh options (distinct ids, no votes),
  \<^verbatim>\<open>updatePoll\<close> with a consistent poll, and \<^verbatim>\<open>votePoll\<close> for an option of the
  poll voted on.
\<close>

theorem reachable_consistent_totals:
  assumes "reachableConsistent s"
  shows "\<forall>p \<in> set (polls s). totalVotes p = int (ledgerSize p)"
  using reachableConsistent_consistentState[OF assms]
  by (simp add: consistentState_def consistent_total)

text \<open>
  The administrator loads a store that holds a poll with one vote, creates a second poll,
  votes on both, and renames the second: one vote and one ledger entry there, two and two
  on the first.
\<close>

theorem reachable_consistent_totals_witness:
  "reachableConsistent (fst (updatePoll beforeEdit menuRenamed True)) \<and>
   polls (fst (updatePoll beforeEdit menuRenamed True)) = [menuRenamed, outingVoted] \<and>
   totalVotes menuRenamed = 1 \<and> ledgerSize menuRenamed = 1 \<and>
   totalVotes outingVoted = 2 \<and> ledgerSize outingVoted = 2"
proof -
  let ?s = "fst (updatePoll beforeEdit menuRenamed True)"
  have r: "reachableConsistent ?s"
    using reachableConsistent_beforeEdit consistent_menuRenamed by (rule rc_update)
  have p: "polls ?s = [menuRenamed, outingVoted]"
    by (simp add: updatePoll_def Let_def polls_beforeEdit menuRenamed_def menuVoted_def
        outingVoted_def outing_def)
  have t: "totalVotes menuRenamed = 1" "totalVotes outingVoted = 2"
    by (simp_all add: totalVotes_def menuRenamed_def menuVoted_def outingVoted_def outing_def)
  from reachable_consistent_totals[OF r]
  have "totalVotes menuRenamed = int (ledgerSize menuRenamed)"
    and "totalVotes outingVoted = int (ledgerSize outingVoted)"
    by (simp_all add: p)
  with t have "ledgerSize menuRenamed = 1" "ledgerSize outingVoted = 2"
    by simp_all
  with r p t show ?thesis by simp
qed

text \<open>
  Without the restrictions the equality fails. A stored poll in the old array format is
  loaded with its count of 1 and an empty ledger. And after the same session, the edit
  that removes the third option of the second poll, for which the administrator voted,
  leaves no vote counted and one ledger entry.
\<close>

theorem reachable_totals_counterexample:
  "reachable (fst (fetchData legacyDb (initialState None))) \<and>
   polls (fst (fetchData legacyDb (initialState None))) = [mapPoll legacyRow] \<and>
   totalVotes (mapPoll legacyRow) = 1 \<and> ledgerSize (mapPoll legacyRow) = 0 \<and>
   reachable (fst (updatePoll beforeEdit menuCut True)) \<and>
   polls (fst (updatePoll beforeEdit menuCut True)) = [menuCut, outingVoted] \<and>
   totalVotes menuCut = 0 \<and> ledgerSize menuCut = 1"
proof -
  have "reachable (initialState None)" by (rule reach_init)
  then have r1: "reachable (fst (fetchData legacyDb (initialState None)))"
    by (rule reach_load)
  have p1: "polls (fst (fetchData legacyDb (initialState None))) = [mapPoll legacyRow]"
    by (simp add: fetchData_def fetchUsers_def fetchSettings_def fetchAnnouncements_def
      fetchExams_def fetchPolls_def fetchResources_def restoreSession_def emptyDb_def
      legacyDb_def initialState_def Let_def)
  have t1: "totalVotes (mapPoll legacyRow) = 1"
    by (simp add: totalVotes_def mapPoll_def legacyRow_def)
  have l1: "ledgerSize (mapPoll legacyRow) = 0"
    by (simp add: ledgerSize_def mapPoll_def legacyRow_def)
  have r2: "reachable (fst (updatePoll beforeEdit menuCut True))"
    using reachable_beforeEdit by (rule reach_update)
  have p2: "polls (fst (updatePoll beforeEdit menuCut True)) = [menuCut, outingVoted]"
    by (simp add: updatePoll_def Let_def polls_beforeEdit menuCut_def menuVoted_def
        outingVoted_def outing_def)
  have t2: "totalVotes menuCut = 0"
    by (simp add: totalVotes_def menuCut_def menuVoted_def)
  have l2: "ledgerSize menuCut = 1"
    by (simp add: ledgerSize_def menuCut_def menuVoted_def)
  from r1 p1 t1 l1 r2 p2 t2 l2 show ?thesis by simp
qed

text \<open>
  C2. When the ledger entry of the current user \<open>u\<close> in the poll \<open>P\<close> found under
  \<open>pollId\<close> is not \<open>optionId\<close> (it is another option or absent), \<^verbatim>\<open>votePoll\<close> replaces
  the poll by one whose ledger maps \<open>u\<close> to \<open>optionId\<close> and whose options are those of
  \<open>P\<close>, in order, with the count of the option voted before decreased by one but not
  below zero, the count of \<open>optionId\<close> increased by one, and every other count unchanged.
  Nothing else of the poll or of the state changes, and one remote update is made.
\<close>

theorem votePoll_moves_vote:
  assumes "currentUser s = Some u"
    and "find (\<lambda>p. item_id p = pollId) (polls s) = Some P"
    and "userVotes P (user_id u) \<noteq> Some optionId"
  shows "votePoll s pollId optionId None =
           (s\<lparr>polls := map (\<lambda>p. if item_id p = pollId then updatedPollOf u P optionId else p)
                           (polls s)\<rparr>,
            [Update ''polls'' pollId]) \<and>
         userVotes (updatedPollOf u P optionId) = (userVotes P)(user_id u \<mapsto> optionId) \<and>
         (updatedPollOf u P optionId)\<lparr>userVotes := userVotes P, options := options P\<rparr> = P \<and>
         length (options (updatedPollOf u P optionId)) = length (options P) \<and>
         (\<forall>i < length (options P).
            opt_id (options (updatedPollOf u P optionId) ! i) = opt_id (options P ! i) \<and>
            opt_text (options (updatedPollOf u P optionId) ! i) = opt_text (options P ! i) \<and>
            votes (options (updatedPollOf u P optionId) ! i) =
              (if Some (opt_id (options P ! i)) = userVotes P (user_id u)
               then max 0 (votes (options P ! i) - 1)
               else if opt_id (options P ! i) = optionId then votes (options P ! i) + 1
               else votes (options P ! i)))"
proof -
  have a: "votePoll s pollId optionId None =
           (s\<lparr>polls := map (\<lambda>p. if item_id p = pollId then updatedPollOf u P optionId else p)
                           (polls s)\<rparr>,
            [Update ''polls'' pollId])"
    using assms by (simp add: votePoll_def Let_def)
  have b: "userVotes (updatedPollOf u P optionId) = (userVotes P)(user_id u \<mapsto> optionId)"
    by (simp add: updatedPollOf_def Let_def)
  have c: "options (updatedPollOf u P optionId) =
             map (updatedOption (userVotes P (user_id u)) optionId) (options P)"
    by (simp add: updatedPollOf_def Let_def)
  have d: "(updatedPollOf u P optionId)\<lparr>userVotes := userVotes P, options := options P\<rparr> = P"
    by (simp add: updatedPollOf_def Let_def)
  show ?thesis
    using assms(3) by (simp add: a b c d updatedOption_votes)
qed

text \<open>Awa, who voted for option a, votes for option b.\<close>

theorem votePoll_moves_vote_witness:
  "userVotes (updatedPollOf awa outing ''b'') ''u-awa'' = Some ''b'' \<and>
   votes (options (updatedPollOf awa outing ''b'') ! 0) = 0 \<and>
   votes (options (updatedPollOf awa outing ''b'') ! 1) = 1 \<and>
   snd (votePoll classroom ''p1'' ''b'' None) = [Update ''polls'' ''p1'']"
proof -
  have u: "currentUser classroom = Some awa"
    by (simp add: classroom_def)
  have f: "find (\<lambda>p. item_id p = ''p1'') (polls classroom) = Some outing"
    by (simp add: classroom_def outing_def)
  have v: "userVotes outing (user_id awa) \<noteq> Some ''b''"
    by (simp add: outing_def awa_def)
  note t = votePoll_moves_vote[OF u f v]
  have l: "length (options outing) = 2" by (simp add: outing_def)
  from t l have v0: "votes (options (updatedPollOf awa outing ''b'') ! 0) =
      (if Some (opt_id (options outing ! 0)) = userVotes outing (user_id awa)
               then max 0 (votes (options outing ! 0) - 1)
               else if opt_id (options outing ! 0) = ''b'' then votes (options outing ! 0) + 1
               else votes (options outing ! 0))"
    by simp
  from t l have v1: "votes (options (updatedPollOf awa outing ''b'') ! 1) =
      (if Some (opt_id (options outing ! 1)) = userVotes outing (user_id awa)
               then max 0 (votes (options outing ! 1) - 1)
               else if opt_id (options outing ! 1) = ''b'' then votes (options outing ! 1) + 1
               else votes (options outing ! 1))"
    by simp
  from t have m: "userVotes (updatedPollOf awa outing ''b'') = (userVotes outing)(user_id awa \<mapsto> ''b'')"
    by simp
  from t have c: "snd (votePoll classroom ''p1'' ''b'' None) = [Update ''polls'' ''p1'']"
    by simp
  show ?thesis
    unfolding v0 v1 m c by (simp add: outing_def awa_def)
qed

text \<open>
  C3. When the ledger entry of the current user in the poll is already the chosen option,
  \<^verbatim>\<open>votePoll\<close> changes nothing in the local state and makes no remote call.
\<close>

theorem votePoll_same_option_noop:
  assumes "currentUser s = Some u"
    and "find (\<lambda>p. item_id p = pollId) (polls s) = Some P"
    and "userVotes P (user_id u) = Some optionId"
  shows "votePoll s pollId optionId failure = (s, [])"
  using assms by (simp add: votePoll_def)

text \<open>Awa votes again for option a.\<close>

theorem votePoll_same_option_noop_witness:
  "votePoll classroom ''p1'' ''a'' None = (classroom, [])"
proof -
  have u: "currentUser classroom = Some awa"
    by (simp add: classroom_def)
  have f: "find (\<lambda>p. item_id p = ''p1'') (polls classroom) = Some outing"
    by (simp add: classroom_def outing_def)
  have v: "userVotes outing (user_id awa) = Some ''a''"
    by (simp add: outing_def awa_def)
  show ?thesis
    using u f v by (rule votePoll_same_option_noop)
qed

text \<open>
  C4. For each of \<^verbatim>\<open>addAnnouncement\<close>, \<^verbatim>\<open>addExam\<close>, \<^verbatim>\<open>addPoll\<close> and
  \<^verbatim>\<open>addResource\<close>: when the remote insert fails, the state after the compensation is
  the state before the optimistic insert. The identifier drawn by \<^verbatim>\<open>generateId\<close> is
  new: it is not the id of an item of the collection.
\<close>

theorem failed_create_restores:
  "(newId \<notin> item_id ` set (announcements s) \<longrightarrow>
      fst (addAnnouncement s ann newId False) = s) \<and>
   (newId \<notin> item_id ` set (exams s) \<longrightarrow>
      fst (addExam s exam newId False) = s) \<and>
   (newId \<notin> item_id ` set (polls s) \<longrightarrow>
      fst (addPoll s poll newId now False) = s) \<and>
   (newId \<notin> item_id ` set (resources s) \<longrightarrow>
      fst (addResource s res newId now False) = s)"
  by (simp add: addAnnouncement_failed addExam_failed addPoll_failed addResource_failed)

text \<open>A poll and an exam whose inserts fail, under ids not yet in use.\<close>

theorem failed_create_restores_witness:
  "fst (addPoll classroom outingForm ''p2'' 5000 False) = classroom \<and>
   fst (addExam classroom mathsExam ''e2'' False) = classroom"
proof -
  have p: "''p2'' \<notin> item_id ` set (polls classroom)"
    by (simp add: classroom_def outing_def)
  have e: "''e2'' \<notin> item_id ` set (exams classroom)"
    by (simp add: classroom_def mathsExam_def)
  show ?thesis
    using p e failed_create_restores[of "''p2''" classroom _ mathsExam outingForm 5000]
      failed_create_restores[of "''e2''" classroom _ mathsExam outingForm 5000]
    by simp
qed

text \<open>
  C5 (amended). For a user with role ADMIN or RESPONSABLE the access filter returns the
  collection unchanged; for a user with role ELEVE it returns, in their order, the items
  whose target class is absent, is the empty string, or equals the user's class group.
  The filtered announcements, exams, polls and resources are this filter on the four
  collections of the state.
\<close>

theorem accessFilter_spec:
  "((role u = ADMIN \<or> role u = RESPONSABLE) \<longrightarrow> accessFilter (Some u) xs = xs) \<and>
   (role u = ELEVE \<longrightarrow>
      accessFilter (Some u) xs =
        filter (\<lambda>a. targetClass a = None \<or> targetClass a = Some [] \<or>
                    targetClass a = classGroup u) xs) \<and>
   (currentUser s = Some u \<longrightarrow>
      filteredAnnouncements s = accessFilter (Some u) (announcements s) \<and>
      filteredExams s = accessFilter (Some u) (exams s) \<and>
      filteredPolls s = accessFilter (Some u) (polls s) \<and>
      filteredResources s = accessFilter (Some u) (resources s))"
proof -
  have "(role u = ADMIN \<or> role u = RESPONSABLE) \<longrightarrow> accessFilter (Some u) xs = xs"
    by (simp add: accessFilter_def)
  moreover have "role u = ELEVE \<longrightarrow>
      accessFilter (Some u) xs =
        filter (\<lambda>a. targetClass a = None \<or> targetClass a = Some [] \<or>
                    targetClass a = classGroup u) xs"
    by (auto simp: accessFilter_def visibleTo_iff intro!: filter_cong)
  moreover have "currentUser s = Some u \<longrightarrow>
      filteredAnnouncements s = accessFilter (Some u) (announcements s) \<and>
      filteredExams s = accessFilter (Some u) (exams s) \<and>
      filteredPolls s = accessFilter (Some u) (polls s) \<and>
      filteredResources s = accessFilter (Some u) (resources s)"
    by (simp add: filteredAnnouncements_def filteredExams_def filteredPolls_def
        filteredResources_def)
  ultimately show ?thesis by blast
qed

text \<open>
  A school-wide item and an item for class 10A: a pupil of 10B sees the first, a pupil of
  10A and the administrator see both.
\<close>

theorem accessFilter_spec_witness:
  "accessFilter (Some binta) [schoolWide, only10A] = [schoolWide] \<and>
   accessFilter (Some awa) [schoolWide, only10A] = [schoolWide, only10A] \<and>
   accessFilter (Some DEFAULT_ADMIN) [schoolWide, only10A] = [schoolWide, only10A] \<and>
   filteredPolls classroom = [outing]"
proof -
  have r: "role binta = ELEVE" "role awa = ELEVE" "role DEFAULT_ADMIN = ADMIN"
    by (simp_all add: binta_def awa_def DEFAULT_ADMIN_def)
  have c: "currentUser classroom = Some awa" "polls classroom = [outing]"
    by (simp_all add: classroom_def)
  from r c accessFilter_spec[of awa "[outing]" classroom]
  have "filteredPolls classroom =
          filter (\<lambda>a. targetClass a = None \<or> targetClass a = Some [] \<or>
                      targetClass a = classGroup awa) [outing]"
    by simp
  then have p: "filteredPolls classroom = [outing]"
    by (simp add: outing_def)
  from r show ?thesis
    using accessFilter_spec[of binta "[schoolWide, only10A]"]
      accessFilter_spec[of awa "[schoolWide, only10A]"]
      accessFilter_spec[of DEFAULT_ADMIN "[schoolWide, only10A]"]
    by (simp add: p schoolWide_def only10A_def binta_def awa_def)
qed

text \<open>
  An item whose target class is the empty string is neither without a target class nor of
  class 10B, and a pupil of 10B sees it.
\<close>

theorem accessFilter_counterexample:
  "accessFilter (Some binta) [emptyTarget] \<noteq>
   filter (\<lambda>a. targetClass a = None \<or> targetClass a = classGroup binta) [emptyTarget]"
  by (simp add: accessFilter_def visibleTo_def falsy_def binta_def emptyTarget_def)

text \<open>
  C6 (amended). With a user logged in, every visible exam gives one alert when the number
  of full days from now to its date, truncated towards zero, is between 0 and 7, that is
  when its date is strictly after now minus one day and strictly before now plus eight
  days, and no alert otherwise. An exam exactly 7 days from now gives one alert; exactly
  8 days from now, none; exactly one day ago, none.
\<close>

theorem exam_alert_window:
  assumes "currentUser s = Some u"
  shows "length (filter (\<lambda>n. notif_type n = alert) (notifications fmt now s)) =
           length (filter (\<lambda>e. now - MS_PER_DAY < exam_date e \<and>
                               exam_date e < now + 8 * MS_PER_DAY) (filteredExams s)) \<and>
         length (examAlerts fmt now e) =
           (if now - MS_PER_DAY < exam_date e \<and> exam_date e < now + 8 * MS_PER_DAY
            then 1 else 0) \<and>
         length (examAlerts fmt now (e\<lparr>exam_date := now + 7 * MS_PER_DAY\<rparr>)) = 1 \<and>
         length (examAlerts fmt now (e\<lparr>exam_date := now + 8 * MS_PER_DAY\<rparr>)) = 0 \<and>
         length (examAlerts fmt now (e\<lparr>exam_date := now - MS_PER_DAY\<rparr>)) = 0"
proof -
  have "length (filter (\<lambda>n. notif_type n = alert) (notifications fmt now s)) =
           length (filter (\<lambda>e. now - MS_PER_DAY < exam_date e \<and>
                               exam_date e < now + 8 * MS_PER_DAY) (filteredExams s))"
    by (simp add: alerts_of_notifications[OF assms] length_concat_examAlerts)
  moreover have "length (examAlerts fmt now (e\<lparr>exam_date := now + 7 * MS_PER_DAY\<rparr>)) = 1"
    by (simp add: length_examAlerts MS_PER_DAY_def)
  moreover have "length (examAlerts fmt now (e\<lparr>exam_date := now + 8 * MS_PER_DAY\<rparr>)) = 0"
    by (simp add: length_examAlerts MS_PER_DAY_def)
  moreover have "length (examAlerts fmt now (e\<lparr>exam_date := now - MS_PER_DAY\<rparr>)) = 0"
    by (simp add: length_examAlerts MS_PER_DAY_def)
  ultimately show ?thesis
    by (simp only: length_examAlerts simp_thms)
qed

text \<open>The exam is 7 days from now; then 8 days from now.\<close>

theorem exam_alert_window_witness:
  "length (filter (\<lambda>n. notif_type n = alert) (notifications (\<lambda>t. ''date'') 0 classroom)) = 1 \<and>
   length (filter (\<lambda>n. notif_type n = alert)
       (notifications (\<lambda>t. ''date'') (- MS_PER_DAY) classroom)) = 0"
proof -
  have u: "currentUser classroom = Some awa" by (simp add: classroom_def)
  have f: "filteredExams classroom = [mathsExam]"
    by (simp add: filteredExams_def accessFilter_def visibleTo_def falsy_def classroom_def
        awa_def mathsExam_def)
  from exam_alert_window[OF u, of "\<lambda>t. ''date''" 0 mathsExam]
  have "length (filter (\<lambda>n. notif_type n = alert) (notifications (\<lambda>t. ''date'') 0 classroom)) =
        length (filter (\<lambda>e. 0 - MS_PER_DAY < exam_date e \<and>
                               exam_date e < 0 + 8 * MS_PER_DAY) [mathsExam])"
    unfolding f by (rule conjunct1)
  then have 1: "length (filter (\<lambda>n. notif_type n = alert)
                  (notifications (\<lambda>t. ''date'') 0 classroom)) = 1"
    by (simp add: mathsExam_def MS_PER_DAY_def)
  from exam_alert_window[OF u, of "\<lambda>t. ''date''" "- MS_PER_DAY" mathsExam]
  have "length (filter (\<lambda>n. notif_type n = alert)
          (notifications (\<lambda>t. ''date'') (- MS_PER_DAY) classroom)) =
        length (filter (\<lambda>e. - MS_PER_DAY - MS_PER_DAY < exam_date e \<and>
                               exam_date e < - MS_PER_DAY + 8 * MS_PER_DAY) [mathsExam])"
    unfolding f by (rule conjunct1)
  then have 2: "length (filter (\<lambda>n. notif_type n = alert)
                  (notifications (\<lambda>t. ''date'') (- MS_PER_DAY) classroom)) = 0"
    by (simp add: mathsExam_def MS_PER_DAY_def)
  from 1 2 show ?thesis by simp
qed

text \<open>
  One hour after the exam's date there is still an alert, although the date is before now.
\<close>

theorem exam_alert_counterexample:
  "length (examAlerts (\<lambda>t. ''date'') (7 * MS_PER_DAY + MS_PER_HOUR) mathsExam) = 1 \<and>
   length (filter (\<lambda>n. notif_type n = alert)
     (notifications (\<lambda>t. ''date'') (7 * MS_PER_DAY + MS_PER_HOUR) classroom)) = 1 \<and>
   \<not> (7 * MS_PER_DAY + MS_PER_HOUR \<le> exam_date mathsExam \<and>
      exam_date mathsExam \<le> (7 * MS_PER_DAY + MS_PER_HOUR) + 7 * MS_PER_DAY)"
  by (simp add: notifications_def filteredExams_def filteredAnnouncements_def filteredPolls_def
      accessFilter_def visibleTo_def falsy_def classroom_def initialState_def awa_def
      mathsExam_def outing_def examAlerts_def pollSuccesses_def differenceInDays_def
      differenceInHours_def truncDiv_def MS_PER_DAY_def MS_PER_HOUR_def Let_def)

text \<open>
  C7 (amended). With user \<open>u\<close> logged in, every visible poll gives one success item when
  the number of full hours since its creation, truncated towards zero, is between 0 and
  48 (its creation is strictly after now minus 49 hours and strictly before now plus one
  hour) and the ledger entry of \<open>u\<close> is absent or the empty string, and no item otherwise.
  A poll created 47 hours ago gives one item when \<open>u\<close> has no entry and none when \<open>u\<close>
  has voted for an option with a non-empty id.
\<close>

theorem poll_success_window:
  assumes "currentUser s = Some u"
  shows "length (filter (\<lambda>n. notif_type n = success) (notifications fmt now s)) =
           length (filter (\<lambda>p. now - 49 * MS_PER_HOUR < createdAt p \<and>
                               createdAt p < now + MS_PER_HOUR \<and>
                               (userVotes p (user_id u) = None \<or>
                                userVotes p (user_id u) = Some [])) (filteredPolls s)) \<and>
         length (pollSuccesses u now p) =
           (if now - 49 * MS_PER_HOUR < createdAt p \<and> createdAt p < now + MS_PER_HOUR \<and>
               (userVotes p (user_id u) = None \<or> userVotes p (user_id u) = Some [])
            then 1 else 0) \<and>
         length (pollSuccesses u now
                   (p\<lparr>createdAt := now - 47 * MS_PER_HOUR, userVotes := Map.empty\<rparr>)) = 1 \<and>
         (oid \<noteq> [] \<longrightarrow>
          length (pollSuccesses u now
                   (p\<lparr>createdAt := now - 47 * MS_PER_HOUR,
                      userVotes := [user_id u \<mapsto> oid]\<rparr>)) = 0)"
proof -
  have "length (filter (\<lambda>n. notif_type n = success) (notifications fmt now s)) =
           length (filter (\<lambda>p. now - 49 * MS_PER_HOUR < createdAt p \<and>
                               createdAt p < now + MS_PER_HOUR \<and>
                               (userVotes p (user_id u) = None \<or>
                                userVotes p (user_id u) = Some [])) (filteredPolls s))"
    by (simp add: successes_of_notifications[OF assms] length_concat_pollSuccesses)
  moreover have "length (pollSuccesses u now
                   (p\<lparr>createdAt := now - 47 * MS_PER_HOUR, userVotes := Map.empty\<rparr>)) = 1"
    by (simp add: length_pollSuccesses MS_PER_HOUR_def)
  moreover have "oid \<noteq> [] \<longrightarrow>
          length (pollSuccesses u now
                   (p\<lparr>createdAt := now - 47 * MS_PER_HOUR,
                      userVotes := [user_id u \<mapsto> oid]\<rparr>)) = 0"
    by (simp add: length_pollSuccesses MS_PER_HOUR_def)
  ultimately show ?thesis
    by (simp only: length_pollSuccesses simp_thms)
qed

text \<open>
  The poll was created 47 hours ago: an item for Binta, who has not voted, none for Awa.
\<close>

theorem poll_success_window_witness:
  "length (filter (\<lambda>n. notif_type n = success)
     (notifications (\<lambda>t. ''date'') (47 * MS_PER_HOUR) (classroom\<lparr>currentUser := Some binta\<rparr>))) = 1 \<and>
   length (filter (\<lambda>n. notif_type n = success)
     (notifications (\<lambda>t. ''date'') (47 * MS_PER_HOUR) classroom)) = 0"
proof -
  let ?now = "47 * MS_PER_HOUR"
  have a: "currentUser classroom = Some awa" by (simp add: classroom_def)
  have b: "currentUser (classroom\<lparr>currentUser := Some binta\<rparr>) = Some binta" by simp
  have fa: "filteredPolls classroom = [outing]"
    by (simp add: filteredPolls_def accessFilter_def visibleTo_def falsy_def classroom_def
        awa_def outing_def)
  have fb: "filteredPolls (classroom\<lparr>currentUser := Some binta\<rparr>) = [outing]"
    by (simp add: filteredPolls_def accessFilter_def visibleTo_def falsy_def classroom_def
        binta_def outing_def)
  from poll_success_window[OF b, of "\<lambda>t. ''date''" ?now outing "''a''"]
  have "length (filter (\<lambda>n. notif_type n = success)
          (notifications (\<lambda>t. ''date'') ?now (classroom\<lparr>currentUser := Some binta\<rparr>))) =
        length (filter (\<lambda>p. ?now - 49 * MS_PER_HOUR < createdAt p \<and>
                               createdAt p < ?now + MS_PER_HOUR \<and>
                               (userVotes p (user_id binta) = None \<or>
                                userVotes p (user_id binta) = Some [])) [outing])"
    unfolding fb by (rule conjunct1)
  then have 1: "length (filter (\<lambda>n. notif_type n = success)
          (notifications (\<lambda>t. ''date'') ?now (classroom\<lparr>currentUser := Some binta\<rparr>))) = 1"
    by (simp add: outing_def binta_def MS_PER_HOUR_def)
  from poll_success_window[OF a, of "\<lambda>t. ''date''" ?now outing "''a''"]
  have "length (filter (\<lambda>n. notif_type n = success) (notifications (\<lambda>t. ''date'') ?now classroom)) =
        length (filter (\<lambda>p. ?now - 49 * MS_PER_HOUR < createdAt p \<and>
                               createdAt p < ?now + MS_PER_HOUR \<and>
                               (userVotes p (user_id awa) = None \<or>
                                userVotes p (user_id awa) = Some [])) [outing])"
    unfolding fa by (rule conjunct1)
  then have 2: "length (filter (\<lambda>n. notif_type n = success)
          (notifications (\<lambda>t. ''date'') ?now classroom)) = 0"
    by (simp add: outing_def awa_def MS_PER_HOUR_def)
  from 1 2 show ?thesis by simp
qed

text \<open>
  Forty-eight and a half hours after the creation there is still an item for Binta.
\<close>

theorem poll_success_counterexample:
  "length (pollSuccesses binta (48 * MS_PER_HOUR + 1800000) outing) = 1 \<and>
   length (filter (\<lambda>n. notif_type n = success)
     (notifications (\<lambda>t. ''date'') (48 * MS_PER_HOUR + 1800000)
        (classroom\<lparr>currentUser := Some binta\<rparr>))) = 1 \<and>
   userVotes outing (user_id binta) = None \<and>
   \<not> ((48 * MS_PER_HOUR + 1800000) - 48 * MS_PER_HOUR \<le> createdAt outing \<and>
      createdAt outing \<le> 48 * MS_PER_HOUR + 1800000)"
  by (simp add: notifications_def filteredExams_def filteredAnnouncements_def filteredPolls_def
      accessFilter_def visibleTo_def falsy_def classroom_def initialState_def binta_def
      mathsExam_def outing_def examAlerts_def pollSuccesses_def differenceInDays_def
      differenceInHours_def truncDiv_def MS_PER_DAY_def MS_PER_HOUR_def Let_def)

text \<open>
  C8. \<^verbatim>\<open>handleLogin\<close> succeeds exactly when some user's email and the given one have
  the same lowered form and the user's password equals the given one; for emails of ASCII
  characters that is exactly when some user's email matches the given one without regard
  to case (\<^term>\<open>equalIgnoringCase\<close>) and the password is equal. On success such a user
  is the current user, and on failure the state is unchanged. \<open>toLowerCase\<close> is any
  function that lowers ASCII strings as the runtime's does.
\<close>

theorem handleLogin_correct:
  assumes "lowersAscii toLowerCase"
  shows
  "(fst (handleLogin toLowerCase s em pw) \<longleftrightarrow>
      (\<exists>u \<in> set (users s). toLowerCase (email u) = toLowerCase em \<and> password u = pw)) \<and>
   (isAscii em \<and> (\<forall>u \<in> set (users s). isAscii (email u)) \<longrightarrow>
      (fst (handleLogin toLowerCase s em pw) \<longleftrightarrow>
         (\<exists>u \<in> set (users s). equalIgnoringCase (email u) em \<and> password u = pw))) \<and>
   (fst (handleLogin toLowerCase s em pw) \<longrightarrow>
      (\<exists>u \<in> set (users s). toLowerCase (email u) = toLowerCase em \<and> password u = pw \<and>
         currentUser (snd (handleLogin toLowerCase s em pw)) = Some u)) \<and>
   (\<not> fst (handleLogin toLowerCase s em pw) \<longrightarrow> snd (handleLogin toLowerCase s em pw) = s)"
proof -
  have ascii: "toLowerCase (email u) = toLowerCase em \<longleftrightarrow> equalIgnoringCase (email u) em"
    if "isAscii em" and "isAscii (email u)" for u
    using assms that by (simp add: lowered_eq_iff)
  show ?thesis
  proof (cases "find (credentialsMatch toLowerCase em pw) (users s)")
    case None
    note n = handleLogin_not_found[OF None]
    from n have 1: "\<not> fst (handleLogin toLowerCase s em pw)"
      and 2: "snd (handleLogin toLowerCase s em pw) = s"
      and 3: "\<forall>u \<in> set (users s). \<not> (toLowerCase (email u) = toLowerCase em \<and> password u = pw)"
      by simp_all
    from 3 ascii have "isAscii em \<and> (\<forall>u \<in> set (users s). isAscii (email u)) \<longrightarrow>
       \<not> (\<exists>u \<in> set (users s). equalIgnoringCase (email u) em \<and> password u = pw)"
      by blast
    with 1 2 3 show ?thesis by blast
  next
    case (Some u)
    note f = handleLogin_found[OF Some]
    from f have 1: "fst (handleLogin toLowerCase s em pw)"
      and 2: "currentUser (snd (handleLogin toLowerCase s em pw)) = Some u"
      and 3: "u \<in> set (users s)"
      and 4: "toLowerCase (email u) = toLowerCase em" and 5: "password u = pw"
      by simp_all
    from 3 4 5 ascii have "isAscii em \<and> (\<forall>u \<in> set (users s). isAscii (email u)) \<longrightarrow>
       (\<exists>u \<in> set (users s). equalIgnoringCase (email u) em \<and> password u = pw)"
      by blast
    with 1 2 3 4 5 show ?thesis by blast
  qed
qed

text \<open>
  Awa logs in with her email in another case; the password in another case is refused,
  and so is an email that differs by a letter.
\<close>

theorem handleLogin_correct_witness:
  "lowersAscii (map lowerAscii) \<and>
   fst (handleLogin (map lowerAscii) classroom ''Awa@ECO.com'' ''awa-pass'') \<and>
   currentUser (snd (handleLogin (map lowerAscii) classroom ''Awa@ECO.com'' ''awa-pass'')) =
     Some awa \<and>
   \<not> fst (handleLogin (map lowerAscii) classroom ''awa@eco.com'' ''AWA-PASS'') \<and>
   snd (handleLogin (map lowerAscii) classroom ''awa@eco.com'' ''AWA-PASS'') = classroom \<and>
   \<not> fst (handleLogin (map lowerAscii) classroom ''ava@eco.com'' ''awa-pass'')"
proof -
  let ?L = "map lowerAscii"
  have us: "users classroom = [DEFAULT_ADMIN, awa, binta]"
    by (simp add: classroom_def)
  have asc: "\<forall>u \<in> set (users classroom). isAscii (email u)"
    by (simp add: us isAscii_def DEFAULT_ADMIN_def awa_def binta_def)
  have a1: "isAscii ''Awa@ECO.com''" "isAscii ''awa@eco.com''" "isAscii ''ava@eco.com''"
    by (simp_all add: isAscii_def)
  have ok: "\<exists>u \<in> set (users classroom).
              equalIgnoringCase (email u) ''Awa@ECO.com'' \<and> password u = ''awa-pass''"
    by (simp add: us awa_def equalIgnoringCase_def sameLetter_def isUpperAscii_def)
  have only: "\<And>u. u \<in> set (users classroom) \<Longrightarrow> password u = ''awa-pass'' \<Longrightarrow> u = awa"
    by (auto simp: us awa_def binta_def DEFAULT_ADMIN_def)
  have no1: "\<not> (\<exists>u \<in> set (users classroom).
              equalIgnoringCase (email u) ''awa@eco.com'' \<and> password u = ''AWA-PASS'')"
    by (simp add: us awa_def binta_def DEFAULT_ADMIN_def)
  have no2: "\<not> (\<exists>u \<in> set (users classroom).
              equalIgnoringCase (email u) ''ava@eco.com'' \<and> password u = ''awa-pass'')"
    by (simp add: us awa_def binta_def DEFAULT_ADMIN_def equalIgnoringCase_def sameLetter_def
        isUpperAscii_def)
  note t1 = handleLogin_correct[OF lowersAscii_map, of classroom "''Awa@ECO.com''" "''awa-pass''"]
  note t2 = handleLogin_correct[OF lowersAscii_map, of classroom "''awa@eco.com''" "''AWA-PASS''"]
  note t3 = handleLogin_correct[OF lowersAscii_map, of classroom "''ava@eco.com''" "''awa-pass''"]
  from t1 ok asc a1 have s1: "fst (handleLogin ?L classroom ''Awa@ECO.com'' ''awa-pass'')"
    by blast
  with t1 only have c1: "currentUser (snd (handleLogin ?L classroom ''Awa@ECO.com'' ''awa-pass'')) =
     Some awa"
    by blast
  from t2 no1 asc a1 have f2: "\<not> fst (handleLogin ?L classroom ''awa@eco.com'' ''AWA-PASS'')"
    by blast
  with t2 have u2: "snd (handleLogin ?L classroom ''awa@eco.com'' ''AWA-PASS'') = classroom"
    by blast
  from t3 no2 asc a1 have f3: "\<not> fst (handleLogin ?L classroom ''ava@eco.com'' ''awa-pass'')"
    by blast
  from lowersAscii_map s1 c1 f2 u2 f3 show ?thesis by simp
qed

text \<open>
  C9. When no poll of the cache has the given id, \<^verbatim>\<open>votePoll\<close> leaves the whole state
  unchanged and makes no remote call.
\<close>

theorem votePoll_unknown_poll_noop:
  assumes "find (\<lambda>p. item_id p = pollId) (polls s) = None"
  shows "votePoll s pollId optionId failure = (s, [])"
  using assms by (simp add: votePoll_def split: option.splits)

text \<open>A vote on a poll id that the cache does not hold.\<close>

theorem votePoll_unknown_poll_noop_witness:
  "votePoll classroom ''p9'' ''a'' None = (classroom, [])"
proof -
  have "find (\<lambda>p. item_id p = ''p9'') (polls classroom) = None"
    by (simp add: classroom_def outing_def)
  then show ?thesis
    by (rule votePoll_unknown_poll_noop)
qed

text \<open>
  C10. When nobody is logged in, \<^verbatim>\<open>addAnnouncement\<close>, \<^verbatim>\<open>addExam\<close>, \<^verbatim>\<open>addPoll\<close>
  and \<^verbatim>\<open>addResource\<close> leave the state unchanged and make no remote call.
\<close>

theorem create_without_user_noop:
  assumes "currentUser s = None"
  shows "addAnnouncement s ann newId ok = (s, []) \<and>
         addExam s exam newId ok = (s, []) \<and>
         addPoll s poll newId now ok = (s, []) \<and>
         addResource s res newId now ok = (s, [])"
  using assms by (simp add: addAnnouncement_def addExam_def addPoll_def addResource_def)

text \<open>Creating before any login.\<close>

theorem create_without_user_noop_witness:
  "addPoll (initialState None) outingForm ''p1'' 5000 True = (initialState None, []) \<and>
   addExam (initialState None) mathsExam ''e1'' True = (initialState None, [])"
proof -
  have "currentUser (initialState None) = None"
    by (simp add: initialState_def)
  then show ?thesis
    using create_without_user_noop[of "initialState None" _ _ _ mathsExam outingForm 5000]
    by simp
qed

end
